theory Spec2Isabelle
  imports Complex_Main "HOL-Library.Multiset"
begin

section \<open>Strings\<close>

text \<open>
  A JavaScript string is a sequence of UTF-16 code units, and \<open>length\<close> counts code
  units. The text the adapters read from a page is modelled over the code units below
  256: one \<^typ>\<open>char\<close> is one code unit (its value read as a Latin-1 code point), so
  \<^const>\<open>length\<close> is the \<open>.length\<close> of the source. Every function on \<^typ>\<open>string\<close>
  below is exact on that range; page text holding a code unit from 256 on (the euro
  sign U+20AC of the price pattern, for one) is outside the model.

  The orchestrator ranks listings it is handed by any caller, and the score depends on
  the number of code units that lower-casing leaves. So the title of a listing and the
  query of the ranking are sequences of code units of any value, \<open>jsstring\<close>, and
  \<open>units\<close> reads a \<^typ>\<open>string\<close> as one.
\<close>

definition code_unit :: "char \<Rightarrow> int" where
  "code_unit c = of_char c"

type_synonym jsstring = "int list"

definition units :: "string \<Rightarrow> jsstring" where
  "units s = map code_unit s"

text \<open>\<open>String.prototype.startsWith\<close> and \<open>String.prototype.includes\<close> (named \<open>js_includes\<close> here).\<close>

definition startsWith :: "'a list \<Rightarrow> 'a list \<Rightarrow> bool" where
  "startsWith s p = (take (length p) s = p)"

fun js_includes :: "'a list \<Rightarrow> 'a list \<Rightarrow> bool" where
  "js_includes [] p = (p = [])"
| "js_includes (c # cs) p = (startsWith (c # cs) p \<or> js_includes cs p)"

text \<open>
  \<open>String.prototype.toLowerCase\<close>, code unit by code unit. Below 256 the letters with
  a lower-case form are A-Z, U+00C0-U+00D6 and U+00D8-U+00DE, each 32 below its
  lower-case form. U+0130 (capital I with dot above, code unit 304) becomes the two code
  units U+0069 U+0307; it is the one character whose lower-case form has another number
  of code units than the character itself. The table of the other characters from
  U+0100 on is not reproduced: such a code unit stays as it is here, which keeps the
  length that the source computes and not, for a letter with a lower-case form, the
  value; a statement about which title contains which query is exact for the strings
  over the code units below 256 and U+0130.
\<close>

definition lower_units :: "int \<Rightarrow> jsstring" where
  "lower_units n =
     (if n = 304 then [105, 775]
      else if (65 \<le> n \<and> n \<le> 90) \<or> (192 \<le> n \<and> n \<le> 214) \<or> (216 \<le> n \<and> n \<le> 222)
      then [n + 32]
      else [n])"

definition toLowerCase :: "jsstring \<Rightarrow> jsstring" where
  "toLowerCase s = concat (map lower_units s)"

text \<open>
  \<open>String.prototype.toUpperCase\<close> on ASCII. The source applies it to a captured
  product code only, whose characters are ASCII letters and digits.
\<close>

definition upper_char :: "char \<Rightarrow> char" where
  "upper_char c =
     (let n = code_unit c in if 97 \<le> n \<and> n \<le> 122 then char_of (n - 32) else c)"

definition toUpperCase :: "string \<Rightarrow> string" where
  "toUpperCase s = map upper_char s"

text \<open>
  The white space of \<open>String.prototype.trim\<close> and of the pattern \<open>\s\<close> on the
  modelled range: TAB, LF, VT, FF, CR, space and the no-break space U+00A0.
\<close>

definition js_whitespace :: "char \<Rightarrow> bool" where
  "js_whitespace c = (code_unit c \<in> {9, 10, 11, 12, 13, 32, 160})"

definition trim :: "string \<Rightarrow> string" where
  "trim s = rev (dropWhile js_whitespace (rev (dropWhile js_whitespace s)))"

text \<open>
  \<open>/pat/i.test(s)\<close> for a pattern of literal ASCII characters. Without the \<open>u\<close> flag
  both sides are canonicalised by the upper-case mapping, and a code unit from 128 on
  never canonicalises to an ASCII one, so only the ASCII letters fold.
\<close>

definition regex_test_i :: "string \<Rightarrow> string \<Rightarrow> bool" where
  "regex_test_i pat s = js_includes (map upper_char s) (map upper_char pat)"

section \<open>Listings\<close>

datatype PlatformName = amazon | aliexpress | shopify

text \<open>
  A JavaScript number as far as the prices need it. \<open>Num r\<close> stands for the double
  nearest to the rational \<open>r\<close>; the model keeps the exact value and makes the overflow
  to \<open>Infinity\<close> and the not-a-number explicit.
\<close>

datatype jsnumber = Num rat | PosInfinity | NaN

text \<open>
  \<open>PlatformProduct\<close>, with the fields the adapters write. \<open>None\<close> is \<open>null\<close>. The
  optional fields \<open>id\<close>, \<open>rating\<close>, \<open>reviewsCount\<close>, \<open>isSponsored\<close> and \<open>raw\<close> are never
  written by the code and are left out. The field \<open>image\<close> of the source is
  \<open>image_src\<close> here. The title is what the ranking reads, so it is a \<open>jsstring\<close>; an
  adapter stores the code units of the text it found.
\<close>

record PlatformProduct =
  platform :: PlatformName
  title :: jsstring
  url :: string
  price :: "jsnumber option"
  currency :: "string option"
  image_src :: "string option"
  imageUrl :: "string option"
  sourcePlatform :: PlatformName

section \<open>The orchestrator: relevance ranking\<close>

text \<open>
  \<open>ScraperManager.computeScore\<close>. The score is a double in the source; every value it
  takes is a quotient of two string lengths added to 0 or 2, and doubles that come from
  different such quotients are different, so comparing the rational values orders the
  listings as the source's comparison of doubles does.
\<close>

definition computeScore :: "jsstring \<Rightarrow> PlatformProduct \<Rightarrow> rat" where
  "computeScore query product =
     (if title product = [] then 0
      else
        let normalizedQuery = toLowerCase query;
            normalizedTitle = toLowerCase (title product);
            score = (if js_includes normalizedTitle normalizedQuery then 2 else 0);
            lengthDifference = \<bar>int (length normalizedTitle) - int (length normalizedQuery)\<bar>
        in score + max 0 (1 - of_int lengthDifference / of_nat (max (length normalizedQuery) 1)))"

text \<open>
  \<open>Array.prototype.sort(compare)\<close>. The language fixes the result for a consistent
  comparator: the stable arrangement in which no element is followed by one that
  compares smaller. Insertion from the right computes it: an element goes in front of
  the first element it does not compare greater than.
\<close>

fun sort_insert :: "('a \<Rightarrow> 'a \<Rightarrow> rat) \<Rightarrow> 'a \<Rightarrow> 'a list \<Rightarrow> 'a list" where
  "sort_insert compare x [] = [x]"
| "sort_insert compare x (y # ys) =
     (if compare x y \<le> 0 then x # y # ys else y # sort_insert compare x ys)"

definition js_sort :: "('a \<Rightarrow> 'a \<Rightarrow> rat) \<Rightarrow> 'a list \<Rightarrow> 'a list" where
  "js_sort compare xs = foldr (sort_insert compare) xs []"

text \<open>
  \<open>ScraperManager.sortByRelevance\<close> on values: the spread copy of the array, sorted by
  \<open>computeScore(b) - computeScore(a)\<close>.
\<close>

definition sortByRelevance :: "jsstring \<Rightarrow> PlatformProduct list \<Rightarrow> PlatformProduct list" where
  "sortByRelevance query products =
     js_sort (\<lambda>a b. computeScore query b - computeScore query a) products"

text \<open>
  The same method over a store of arrays, where the copy and the mutation show. An
  array reference is an index into \<open>arrays\<close>; \<open>[...products]\<close> allocates a new array
  holding the elements of \<open>products\<close>, and \<open>sort\<close> then rearranges that new array in
  place and returns its reference.
\<close>

record array_store =
  arrays :: "PlatformProduct list list"

definition spread_copy :: "array_store \<Rightarrow> nat \<Rightarrow> nat \<times> array_store" where
  "spread_copy st ref =
     (length (arrays st), st\<lparr>arrays := arrays st @ [arrays st ! ref]\<rparr>)"

definition sort_in_place ::
  "(PlatformProduct \<Rightarrow> PlatformProduct \<Rightarrow> rat) \<Rightarrow> array_store \<Rightarrow> nat \<Rightarrow> nat \<times> array_store" where
  "sort_in_place compare st ref =
     (ref, st\<lparr>arrays := (arrays st)[ref := js_sort compare (arrays st ! ref)]\<rparr>)"

definition sortByRelevance_store :: "jsstring \<Rightarrow> array_store \<Rightarrow> nat \<Rightarrow> nat \<times> array_store" where
  "sortByRelevance_store query st products =
     (let (copy, st1) = spread_copy st products
      in sort_in_place (\<lambda>a b. computeScore query b - computeScore query a) st1 copy)"

section \<open>The orchestrator: running the adapters\<close>

text \<open>
  \<open>ScraperManager.runAll\<close>. What awaiting \<open>scrapers[platform]()\<close> gives is an input of
  the model: \<open>Inr products\<close> when the adapter's promise fulfils, \<open>Inl e\<close> when building
  the adapter or its \<open>search()\<close> throws. A promise is modelled by its outcome, so the
  three adapters do not interleave in the model; they share no state in the source.
\<close>

datatype js_error = Thrown string

record PlatformMatches =
  amazon_matches :: "PlatformProduct list"
  aliexpress_matches :: "PlatformProduct list"
  shopify_matches :: "PlatformProduct list"

definition platforms :: "PlatformName list" where
  "platforms = [amazon, aliexpress, shopify]"

text \<open>The callback mapped over \<open>platforms\<close>: its \<open>try\<close> and its \<open>catch\<close>.\<close>

definition run_platform ::
  "jsstring \<Rightarrow> (PlatformName \<Rightarrow> js_error + PlatformProduct list) \<Rightarrow> PlatformName
     \<Rightarrow> js_error + PlatformProduct list" where
  "run_platform query scrapers p =
     (case scrapers p of
        Inr products \<Rightarrow> Inr (sortByRelevance query products)
      | Inl error \<Rightarrow> Inr [])"

text \<open>\<open>Promise.all\<close>: the first rejection rejects the whole, otherwise all the values.\<close>

fun promise_all :: "(js_error + 'a) list \<Rightarrow> js_error + 'a list" where
  "promise_all [] = Inr []"
| "promise_all (Inl e # rest) = Inl e"
| "promise_all (Inr v # rest) =
     (case promise_all rest of Inl e \<Rightarrow> Inl e | Inr vs \<Rightarrow> Inr (v # vs))"

text \<open>The assignment \<open>acc[platform] = results[index]\<close> of the final \<open>reduce\<close>.\<close>

fun assign_matches ::
  "PlatformMatches \<Rightarrow> PlatformName \<Rightarrow> PlatformProduct list \<Rightarrow> PlatformMatches" where
  "assign_matches acc amazon r = acc\<lparr>amazon_matches := r\<rparr>"
| "assign_matches acc aliexpress r = acc\<lparr>aliexpress_matches := r\<rparr>"
| "assign_matches acc shopify r = acc\<lparr>shopify_matches := r\<rparr>"

definition runAll ::
  "jsstring \<Rightarrow> (PlatformName \<Rightarrow> js_error + PlatformProduct list) \<Rightarrow> js_error + PlatformMatches" where
  "runAll query scrapers =
     (case promise_all (map (run_platform query scrapers) platforms) of
        Inl e \<Rightarrow> Inl e
      | Inr results \<Rightarrow>
          Inr (fold (\<lambda>(platform, result) acc. assign_matches acc platform result)
                 (zip platforms results)
                 \<lparr>amazon_matches = [], aliexpress_matches = [], shopify_matches = []\<rparr>))"

section \<open>What the adapters get from outside\<close>

text \<open>
  The HTTP client, the random source, the URL class, \<open>decodeURIComponent\<close> and the
  HTML parser with its selectors are not code of the repository. The model takes what
  they return as inputs.
\<close>

text \<open>
  The outcome of the awaits of one attempt (the client and its GET): a response with its
  status and its \<open>data\<close> (\<open>None\<close> when \<open>data\<close> is \<open>null\<close>, \<open>undefined\<close> or not a
  string), an Axios error with the status of its response if it has one, or any other
  thrown value.
\<close>

datatype fetch_outcome =
    Response nat "string option"
  | AxiosFailure "nat option"
  | OtherFailure

text \<open>A \<open>URL\<close> object, by the properties the code reads.\<close>

record url_object =
  origin :: string
  pathname :: string
  searchParams :: "(string \<times> string) list"
  href :: string

text \<open>What the code reads of an anchor, and of a result container of each platform.\<close>

record anchor_view =
  a_href :: "string option"
  a_title :: "string option"
  a_text :: string

record amazon_container =
  data_component_type :: "string option"
  sponsored_marks :: nat
  heading_span_text :: string
  heading_href :: "string option"
  s_image_src :: "string option"
  first_img_src :: "string option"
  price_containers :: nat
  price_symbol_text :: string
  price_whole_text :: string
  price_fraction_text :: string

record aliexpress_container =
  inner_item_anchor :: "anchor_view option"
  closest_item_anchor :: "anchor_view option"
  container_href :: "string option"
  multi_title_text :: string
  manhattan_title_text :: string
  img_src :: "string option"
  img_data_src :: "string option"
  img_image_src :: "string option"
  multi_price_text :: string
  manhattan_price_text :: string
  price_class_text :: string
  price_current_text :: string

record shopify_container =
  result_anchor_href :: "string option"
  result_anchor_text :: string

text \<open>
  In \<open>amazon_container\<close>: \<open>attr('data-component-type')\<close>; the number of elements
  \<open>find('[aria-label="Sponsored"], .s-sponsored-label-text')\<close> selects;
  \<open>find('h2 a span').text()\<close>; \<open>find('h2 a').attr('href')\<close>; the \<open>src\<close> of
  \<open>img.s-image\<close> and of the first \<open>img\<close>; the number of \<open>.a-price\<close> elements and the
  text of the first symbol, whole and fraction element under them.
  In \<open>aliexpress_container\<close>: the first \<open>a[href*="/item/"]\<close> below the container and the
  closest one above it, if any; \<open>attr('href')\<close> of the container; the text of the two
  title classes; three attributes of \<open>find('img')\<close>; the text of the four price classes.
  In \<open>shopify_container\<close>: \<open>href\<close> and text of the first \<open>a.result__a\<close>.
  An attribute that is absent is \<open>None\<close> (\<open>undefined\<close>); \<open>text()\<close> is always a string,
  empty when nothing is selected.
\<close>

record runtime =
  new_URL :: "string \<Rightarrow> url_object option"
  new_URL_base :: "string \<Rightarrow> string \<Rightarrow> url_object option"
  decodeURIComponent :: "string \<Rightarrow> string option"
  amazon_results :: "string \<Rightarrow> amazon_container list"
  aliexpress_results :: "string \<Rightarrow> aliexpress_container list"
  shopify_results :: "string \<Rightarrow> shopify_container list"

text \<open>
  In \<open>runtime\<close>: \<open>new URL(s)\<close> and \<open>new URL(s, base)\<close>, \<open>None\<close> when the constructor
  throws; \<open>decodeURIComponent\<close>, \<open>None\<close> when it throws; and for each platform the
  elements its selector finds in \<open>load(html)\<close>, in document order.
\<close>

text \<open>\<open>a ?? b\<close> and \<open>searchParams.get(name)\<close>.\<close>

definition nullish :: "'a option \<Rightarrow> 'a option \<Rightarrow> 'a option" where
  "nullish a b = (case a of Some v \<Rightarrow> Some v | None \<Rightarrow> b)"

definition searchParams_get :: "url_object \<Rightarrow> string \<Rightarrow> string option" where
  "searchParams_get u name = map_of (searchParams u) name"

section \<open>Character classes and numbers\<close>

definition is_digit :: "char \<Rightarrow> bool" where
  "is_digit c = (48 \<le> code_unit c \<and> code_unit c \<le> 57)"

definition is_upper_AZ :: "char \<Rightarrow> bool" where
  "is_upper_AZ c = (65 \<le> code_unit c \<and> code_unit c \<le> 90)"

definition is_lower_az :: "char \<Rightarrow> bool" where
  "is_lower_az c = (97 \<le> code_unit c \<and> code_unit c \<le> 122)"

text \<open>\<open>[A-Z0-9]\<close> under the \<open>i\<close> flag.\<close>

definition is_alnum_i :: "char \<Rightarrow> bool" where
  "is_alnum_i c = (is_digit c \<or> is_upper_AZ c \<or> is_lower_az c)"

definition decimal_value :: "string \<Rightarrow> int" where
  "decimal_value ds = foldl (\<lambda>acc c. 10 * acc + (code_unit c - 48)) 0 ds"

text \<open>
  The double for a non-negative decimal value: from \<open>2^1024 - 2^970\<close> on (half way
  between the largest double and \<open>2^1024\<close>) rounding gives \<open>Infinity\<close>.
\<close>

definition to_double :: "rat \<Rightarrow> jsnumber" where
  "to_double r = (if of_int (2 ^ 1024 - 2 ^ 970) \<le> r then PosInfinity else Num r)"

text \<open>
  \<open>parseFloat\<close> on a string of digits and dots, which is all its callers pass: the
  longest prefix that is digits, optionally a dot and digits, with a digit somewhere;
  \<open>NaN\<close> when there is no such prefix. Signs, exponents and white space cannot occur.
\<close>

definition parseFloat :: "string \<Rightarrow> jsnumber" where
  "parseFloat s =
     (let whole = takeWhile is_digit s;
          rest = dropWhile is_digit s;
          fraction = (case rest of c # cs \<Rightarrow> if c = CHR ''.'' then takeWhile is_digit cs else []
                      | [] \<Rightarrow> [])
      in if whole = [] \<and> fraction = [] then NaN
         else to_double (of_int (decimal_value whole)
                + of_int (decimal_value fraction) / 10 ^ length fraction))"

section \<open>Search addresses\<close>

definition hex_digit :: "nat \<Rightarrow> char" where
  "hex_digit d = ''0123456789ABCDEF'' ! d"

definition percent_byte :: "int \<Rightarrow> string" where
  "percent_byte b = [CHR ''%'', hex_digit (nat (b div 16)), hex_digit (nat (b mod 16))]"

text \<open>The UTF-8 bytes of a code unit below 256, percent-encoded.\<close>

definition percent_utf8 :: "char \<Rightarrow> string" where
  "percent_utf8 c =
     (let n = code_unit c
      in if n < 128 then percent_byte n
         else percent_byte (192 + n div 64) @ percent_byte (128 + n mod 64))"

definition encodeURIComponent :: "string \<Rightarrow> string" where
  "encodeURIComponent s =
     concat (map (\<lambda>c. if is_alnum_i c \<or> c \<in> set ''-_.!~*'' \<or> c = CHR 0x27 \<or> c \<in> set ''()''
                        then [c] else percent_utf8 c) s)"

text \<open>\<open>URLSearchParams.prototype.toString\<close> on one value: the form encoding.\<close>

definition form_urlencode :: "string \<Rightarrow> string" where
  "form_urlencode s =
     concat (map (\<lambda>c. if c = CHR '' '' then ''+''
                        else if is_alnum_i c \<or> c \<in> set ''*-._'' then [c]
                        else percent_utf8 c) s)"

definition AMAZON_BASE_URL :: string where
  "AMAZON_BASE_URL = ''https://www.amazon.com''"

definition ALIEXPRESS_BASE_URL :: string where
  "ALIEXPRESS_BASE_URL = ''https://www.aliexpress.com''"

definition SHOPIFY_SEARCH_BASE_URL :: string where
  "SHOPIFY_SEARCH_BASE_URL = ''https://duckduckgo.com/html/''"

definition amazon_getSearchUrl :: "string \<Rightarrow> string" where
  "amazon_getSearchUrl query = AMAZON_BASE_URL @ ''/s?k='' @ encodeURIComponent (trim query)"

definition aliexpress_getSearchUrl :: "string \<Rightarrow> string" where
  "aliexpress_getSearchUrl query =
     ALIEXPRESS_BASE_URL @ ''/wholesale?SearchText='' @ encodeURIComponent (trim query)
       @ ''&SortType=default''"

definition shopify_getSearchUrl :: "string \<Rightarrow> string" where
  "shopify_getSearchUrl query =
     SHOPIFY_SEARCH_BASE_URL @ ''?'' @ ''q='' @ form_urlencode (query @ '' site:myshopify.com product'')
       @ ''&ia=web''"

section \<open>Retry and backoff\<close>

text \<open>
  What a run of \<open>search()\<close> did, as far as the retry policy goes: the number of
  attempts it made and the delays it waited, in milliseconds and in order.
\<close>

record search_trace =
  attempts :: nat
  delays :: "int list"

definition no_trace :: search_trace where
  "no_trace = \<lparr>attempts = 0, delays = []\<rparr>"

text \<open>
  \<open>maybeRetry\<close>. \<open>math_random\<close> lists the values \<open>Math.random()\<close> returns, in the order
  of the calls; the next one is at the number of delays waited so far.
\<close>

definition maybeRetry :: "(nat \<Rightarrow> rat) \<Rightarrow> nat \<Rightarrow> nat \<Rightarrow> search_trace \<Rightarrow> search_trace" where
  "maybeRetry math_random attempt maxRetries tr =
     (if attempt \<ge> maxRetries then tr
      else
        let delay = 300 + \<lfloor>math_random (length (delays tr)) * 300\<rfloor>
        in tr\<lparr>delays := delays tr @ [delay]\<rparr>)"

definition maxRetries :: nat where
  "maxRetries = 3"

text \<open>
  The loop of \<open>search()\<close>. The three adapters repeat it word for word except for the
  log tag, the bot test and the parser, which are the parameters \<open>isBot\<close> and \<open>parse\<close>
  here. \<open>http_get n\<close> is the outcome of the \<open>n\<close>-th attempt. The parser is a
  total function here; nothing in the three parsers throws past its own \<open>catch\<close>.
\<close>

function retry_loop ::
  "(string \<Rightarrow> bool) \<Rightarrow> (string \<Rightarrow> PlatformProduct list) \<Rightarrow> (nat \<Rightarrow> fetch_outcome)
     \<Rightarrow> (nat \<Rightarrow> rat) \<Rightarrow> nat \<Rightarrow> search_trace \<Rightarrow> PlatformProduct list \<times> search_trace" where
  "retry_loop isBot parse http_get math_random attempt tr =
     (if \<not> attempt \<le> maxRetries then ([], tr)
      else
        let tr1 = tr\<lparr>attempts := attempts tr + 1\<rparr>
        in case http_get attempt of
             Response status data \<Rightarrow>
               if status = 503 \<or> status = 429 then
                 retry_loop isBot parse http_get math_random (attempt + 1)
                   (maybeRetry math_random attempt maxRetries tr1)
               else
                 let html = (case data of Some text \<Rightarrow> text | None \<Rightarrow> [])
                 in if data = None \<or> length (trim html) = 0 then
                      retry_loop isBot parse http_get math_random (attempt + 1)
                        (maybeRetry math_random attempt maxRetries tr1)
                    else if isBot html then ([], tr1)
                    else (parse html, tr1)
           | AxiosFailure status \<Rightarrow>
               retry_loop isBot parse http_get math_random (attempt + 1)
                 (maybeRetry math_random attempt maxRetries tr1)
           | OtherFailure \<Rightarrow>
               retry_loop isBot parse http_get math_random (attempt + 1)
                 (maybeRetry math_random attempt maxRetries tr1))"
  by pat_completeness auto
termination
  by (relation "measure (\<lambda>(isBot, parse, http_get, math_random, attempt, tr). Suc maxRetries - attempt)")
     auto

declare retry_loop.simps [simp del]

section \<open>Parsing: the loop over the result containers\<close>

text \<open>
  \<open>$(selector).each(callback)\<close> as the three \<open>parseProducts\<close> use it. The callback
  first compares \<open>products.length\<close> with \<open>maxResults\<close> and returns \<open>false\<close>, which ends
  the iteration; otherwise it either returns early (the element gives no listing,
  \<open>None\<close> here) or pushes one listing. \<open>item\<close> is the rest of the callback.
  \<open>maxResults\<close> is a number in the source and need not be whole, so it is a rational
  here.
\<close>

fun each_container ::
  "rat \<Rightarrow> ('c \<Rightarrow> PlatformProduct option) \<Rightarrow> 'c list \<Rightarrow> PlatformProduct list
     \<Rightarrow> PlatformProduct list" where
  "each_container maxResults item [] products = products"
| "each_container maxResults item (element # rest) products =
     (if of_nat (length products) \<ge> maxResults then products
      else case item element of
             None \<Rightarrow> each_container maxResults item rest products
           | Some product \<Rightarrow> each_container maxResults item rest (products @ [product]))"

text \<open>\<open>s.replace(/^\/+/, '')\<close> and \<open>s.replace(/\/+$/, '')\<close>.\<close>

definition strip_leading_slashes :: "string \<Rightarrow> string" where
  "strip_leading_slashes s = dropWhile (\<lambda>c. c = CHR ''/'') s"

definition strip_trailing_slashes :: "string \<Rightarrow> string" where
  "strip_trailing_slashes s = rev (dropWhile (\<lambda>c. c = CHR ''/'') (rev s))"

section \<open>The marketplace adapter (amazon)\<close>

text \<open>
  \<open>pathname.match(/<marker>([A-Z0-9]{10})/i)\<close> for a literal marker: the capture of
  the leftmost match. \<open>code_at\<close> tries the pattern at the start of \<open>s\<close>.
\<close>

definition code_at :: "string \<Rightarrow> string \<Rightarrow> string option" where
  "code_at marker s =
     (let code = take 10 (drop (length marker) s)
      in if map upper_char (take (length marker) s) = map upper_char marker
            \<and> length code = 10 \<and> list_all is_alnum_i code
         then Some code else None)"

fun match_code :: "string \<Rightarrow> string \<Rightarrow> string option" where
  "match_code marker [] = code_at marker []"
| "match_code marker (c # cs) =
     (case code_at marker (c # cs) of
        Some code \<Rightarrow> Some code
      | None \<Rightarrow> match_code marker cs)"

definition asinMatch :: "string \<Rightarrow> string option" where
  "asinMatch path =
     (case match_code ''/dp/'' path of
        Some code \<Rightarrow> Some code
      | None \<Rightarrow> match_code ''/gp/product/'' path)"

text \<open>
  \<open>AmazonScraper.normalizeProductLink\<close>. \<open>None\<close> is \<open>null\<close>: the argument is empty, or
  something in the \<open>try\<close> block threw.
\<close>

definition amazon_unwrap_redirect :: "runtime \<Rightarrow> url_object \<Rightarrow> url_object option" where
  "amazon_unwrap_redirect rt urlObject =
     (let redirectTarget =
            nullish (searchParams_get urlObject ''url'') (searchParams_get urlObject ''location'')
      in case redirectTarget of
           None \<Rightarrow> Some urlObject
         | Some target \<Rightarrow>
             (if target = [] then Some urlObject
              else (case decodeURIComponent rt target of
                      None \<Rightarrow> None
                    | Some decoded \<Rightarrow>
                        new_URL rt (if startsWith decoded ''http'' then decoded
                                    else AMAZON_BASE_URL @ decoded))))"

definition amazon_absolute_candidate :: "string \<Rightarrow> string" where
  "amazon_absolute_candidate candidate =
     (if startsWith candidate ''http'' then candidate
      else AMAZON_BASE_URL @ (if startsWith candidate ''/'' then [] else ''/'')
             @ strip_leading_slashes candidate)"

definition amazon_canonical :: "url_object \<Rightarrow> string" where
  "amazon_canonical urlObject =
     (case asinMatch (pathname urlObject) of
        Some code \<Rightarrow> AMAZON_BASE_URL @ ''/dp/'' @ toUpperCase code
      | None \<Rightarrow> strip_trailing_slashes (origin urlObject @ pathname urlObject))"

definition amazon_normalizeProductLink :: "runtime \<Rightarrow> string \<Rightarrow> string option" where
  "amazon_normalizeProductLink rt rawLink =
     (if rawLink = [] then None
      else (case new_URL rt (amazon_absolute_candidate (trim rawLink)) of
              None \<Rightarrow> None
            | Some urlObject \<Rightarrow>
                (case amazon_unwrap_redirect rt urlObject of
                   None \<Rightarrow> None
                 | Some target \<Rightarrow> Some (amazon_canonical target))))"

text \<open>
  The body of the method is one \<open>try\<close> block, cut here into its three steps: the
  candidate made absolute (\<open>amazon_absolute_candidate\<close>), the redirect parameter
  unwrapped (\<open>amazon_unwrap_redirect\<close>), and the result built from the final URL object
  (\<open>amazon_canonical\<close>). A \<open>None\<close> of any step is the \<open>catch\<close>.
\<close>

text \<open>
  \<open>CURRENCY_SYMBOLS\<close>, by its own keys on the modelled range: the dollar and the pound
  sign (U+00A3); the euro sign is outside the range.
\<close>

definition CURRENCY_SYMBOLS :: "string \<Rightarrow> string option" where
  "CURRENCY_SYMBOLS symbol =
     (if symbol = ''$'' then Some ''USD''
      else if symbol = [CHR 0xA3] then Some ''GBP''
      else None)"

definition amazon_extractPrice :: "amazon_container \<Rightarrow> jsnumber option \<times> string option" where
  "amazon_extractPrice container =
     (if price_containers container > 0 then
        let symbol = trim (price_symbol_text container);
            whole = trim (price_whole_text container);
            fraction = trim (price_fraction_text container);
            priceValue =
              (if whole \<noteq> [] then
                 let normalizedWhole = filter is_digit whole;
                     normalizedFraction = filter is_digit fraction
                 in Some (parseFloat (normalizedWhole @ ''.''
                            @ (if normalizedFraction \<noteq> [] then normalizedFraction else ''00'')))
               else None);
            currencyCode =
              (if symbol \<noteq> [] then
                 Some (case CURRENCY_SYMBOLS symbol of Some code \<Rightarrow> code | None \<Rightarrow> symbol)
               else None)
        in (priceValue, currencyCode)
      else (None, None))"

definition amazon_sponsored :: "amazon_container \<Rightarrow> bool" where
  "amazon_sponsored container =
     (data_component_type container = Some ''sp-sponsored-result''
      \<or> sponsored_marks container > 0)"

text \<open>The callback of \<open>AmazonScraper.parseProducts\<close> after its check of the cap.\<close>

definition amazon_item :: "runtime \<Rightarrow> amazon_container \<Rightarrow> PlatformProduct option" where
  "amazon_item rt container =
     (if amazon_sponsored container then None
      else
        let titleText = trim (heading_span_text container);
            rawLink = heading_href container
        in case rawLink of
             None \<Rightarrow> None
           | Some link \<Rightarrow>
               (if titleText = [] \<or> link = [] then None
                else (case amazon_normalizeProductLink rt link of
                        None \<Rightarrow> None
                      | Some normalized \<Rightarrow>
                          (if normalized = [] then None
                           else
                             let image = nullish (s_image_src container) (first_img_src container);
                                 priceInfo = amazon_extractPrice container
                             in Some \<lparr>platform = amazon, title = units titleText, url = normalized,
                                        price = fst priceInfo, currency = snd priceInfo,
                                        image_src = image, imageUrl = image,
                                        sourcePlatform = amazon\<rparr>))))"

definition amazon_parseProducts :: "runtime \<Rightarrow> rat \<Rightarrow> string \<Rightarrow> PlatformProduct list" where
  "amazon_parseProducts rt maxResults html =
     each_container maxResults (amazon_item rt) (amazon_results rt html) []"

definition amazon_isBotPage :: "string \<Rightarrow> bool" where
  "amazon_isBotPage html = (regex_test_i ''Robot Check'' html \<or> regex_test_i ''captcha'' html)"

definition amazon_search ::
  "runtime \<Rightarrow> string \<Rightarrow> rat \<Rightarrow> (string \<Rightarrow> nat \<Rightarrow> fetch_outcome) \<Rightarrow> (nat \<Rightarrow> rat)
     \<Rightarrow> PlatformProduct list \<times> search_trace" where
  "amazon_search rt query maxResults http_get math_random =
     (let searchUrl = amazon_getSearchUrl query
      in if searchUrl = [] then ([], no_trace)
         else retry_loop amazon_isBotPage (amazon_parseProducts rt maxResults)
                (http_get searchUrl) math_random 1 no_trace)"

section \<open>The wholesale adapter (aliexpress)\<close>

definition aliexpress_isBotPage :: "string \<Rightarrow> bool" where
  "aliexpress_isBotPage html =
     list_ex (\<lambda>pattern. regex_test_i pattern html) [''captcha'', ''robot'', ''verification'']"

text \<open>\<open>AliExpressScraper.ensureAbsoluteUrl\<close>; the result is \<open>new URL(...).toString()\<close>.\<close>

definition aliexpress_ensureAbsoluteUrl :: "runtime \<Rightarrow> string \<Rightarrow> string option" where
  "aliexpress_ensureAbsoluteUrl rt relative =
     (let normalized =
            (if startsWith relative ''http'' then relative
             else ALIEXPRESS_BASE_URL @ (if startsWith relative ''/'' then [] else ''/'')
                    @ strip_leading_slashes relative)
      in case new_URL rt normalized of
           None \<Rightarrow> None
         | Some urlObject \<Rightarrow> Some (href urlObject))"

text \<open>\<open>a || b\<close> on strings, and \<open>AliExpressScraper.extractPriceText\<close>.\<close>

definition or_else :: "string \<Rightarrow> string \<Rightarrow> string" where
  "or_else a b = (if a \<noteq> [] then a else b)"

definition aliexpress_extractPriceText :: "aliexpress_container \<Rightarrow> string" where
  "aliexpress_extractPriceText container =
     or_else (multi_price_text container)
       (or_else (manhattan_price_text container)
          (or_else (price_class_text container)
             (or_else (price_current_text container) [])))"

text \<open>
  The pattern \<open>/([$\<euro>\<pounds>]|[A-Z]{3})?\s*([\d.,]+)/\<close> of \<open>parsePrice\<close>.
  \<open>currency_group\<close> is the first group at the start of \<open>s\<close> with what follows it;
  \<open>amount_after\<close> is \<open>\s*([\d.,]+)\<close> at the start of \<open>s\<close>; \<open>price_match_at\<close> is the
  whole pattern at the start of \<open>s\<close>, with the group and, when the rest then fails,
  without it; \<open>price_regex_match\<close> is the leftmost match. A match is the pair of the two
  captures, the first \<open>None\<close> when the group did not take part.
\<close>

definition currency_group :: "string \<Rightarrow> (string \<times> string) option" where
  "currency_group s =
     (case s of
        [] \<Rightarrow> None
      | c # cs \<Rightarrow>
          (if c = CHR ''$'' \<or> c = CHR 0xA3 then Some ([c], cs)
           else if length s \<ge> 3 \<and> list_all is_upper_AZ (take 3 s) then Some (take 3 s, drop 3 s)
           else None))"

definition is_amount_char :: "char \<Rightarrow> bool" where
  "is_amount_char c = (is_digit c \<or> c = CHR ''.'' \<or> c = CHR '','')"

definition amount_after :: "string \<Rightarrow> string option" where
  "amount_after s =
     (let amount = takeWhile is_amount_char (dropWhile js_whitespace s)
      in if amount = [] then None else Some amount)"

definition price_match_at :: "string \<Rightarrow> (string option \<times> string) option" where
  "price_match_at s =
     (let without_group = map_option (\<lambda>amount. (None, amount)) (amount_after s)
      in case currency_group s of
           None \<Rightarrow> without_group
         | Some (symbol, rest) \<Rightarrow>
             (case amount_after rest of
                Some amount \<Rightarrow> Some (Some symbol, amount)
              | None \<Rightarrow> without_group))"

fun price_regex_match :: "string \<Rightarrow> (string option \<times> string) option" where
  "price_regex_match [] = price_match_at []"
| "price_regex_match (c # cs) =
     (case price_match_at (c # cs) of
        Some m \<Rightarrow> Some m
      | None \<Rightarrow> price_regex_match cs)"

text \<open>
  \<open>AliExpressScraper.parsePrice\<close>. \<open>numericPart\<close> is the second capture without its
  commas and then without whatever is neither a digit nor a dot.
\<close>

definition numericPart_of :: "string \<Rightarrow> string" where
  "numericPart_of amount =
     filter (\<lambda>c. is_digit c \<or> c = CHR ''.'') (filter (\<lambda>c. c \<noteq> CHR '','') amount)"

definition aliexpress_parsePrice :: "string \<Rightarrow> jsnumber option \<times> string option" where
  "aliexpress_parsePrice raw =
     (if raw = [] then (None, None)
      else (case price_regex_match raw of
              None \<Rightarrow> (None, None)
            | Some (currencySymbol, amount) \<Rightarrow>
                let numericPart = numericPart_of amount;
                    parsed = (if numericPart \<noteq> [] then Some (parseFloat numericPart) else None)
                in (if parsed = Some NaN then None else parsed,
                    map_option trim currencySymbol)))"

text \<open>
  The title of a candidate: \<open>anchor.attr('title') ?? find(first class).text() ??
  find(second class).text() ?? anchor.text()\<close>. \<open>attr\<close> may be \<open>undefined\<close>; \<open>text()\<close>
  never is, so each \<open>text()\<close> enters the chain as \<open>Some\<close>.
\<close>

definition aliexpress_anchor :: "aliexpress_container \<Rightarrow> anchor_view option" where
  "aliexpress_anchor container =
     (case inner_item_anchor container of
        Some a \<Rightarrow> Some a
      | None \<Rightarrow> closest_item_anchor container)"

definition anchor_attr_href :: "anchor_view option \<Rightarrow> string option" where
  "anchor_attr_href anchor = (case anchor of None \<Rightarrow> None | Some a \<Rightarrow> a_href a)"

definition anchor_attr_title :: "anchor_view option \<Rightarrow> string option" where
  "anchor_attr_title anchor = (case anchor of None \<Rightarrow> None | Some a \<Rightarrow> a_title a)"

definition anchor_text :: "anchor_view option \<Rightarrow> string" where
  "anchor_text anchor = (case anchor of None \<Rightarrow> [] | Some a \<Rightarrow> a_text a)"

definition aliexpress_title :: "aliexpress_container \<Rightarrow> string option" where
  "aliexpress_title container =
     (let anchor = aliexpress_anchor container
      in nullish (anchor_attr_title anchor)
           (nullish (Some (multi_title_text container))
              (nullish (Some (manhattan_title_text container))
                 (Some (anchor_text anchor)))))"

text \<open>The callback of \<open>AliExpressScraper.parseProducts\<close> after its check of the cap.\<close>

definition aliexpress_item :: "runtime \<Rightarrow> aliexpress_container \<Rightarrow> PlatformProduct option" where
  "aliexpress_item rt container =
     (let anchor = aliexpress_anchor container;
          link = nullish (anchor_attr_href anchor) (container_href container);
          titleText = aliexpress_title container
      in case (link, titleText) of
           (Some l, Some t) \<Rightarrow>
             (if l = [] \<or> trim t = [] then None
              else (case aliexpress_ensureAbsoluteUrl rt l of
                      None \<Rightarrow> None
                    | Some absolute \<Rightarrow>
                        (if absolute = [] then None
                         else
                           let image = nullish (img_src container)
                                         (nullish (img_data_src container) (img_image_src container));
                               priceInfo = aliexpress_parsePrice (aliexpress_extractPriceText container)
                           in Some \<lparr>platform = aliexpress, title = units (trim t), url = absolute,
                                      price = fst priceInfo, currency = snd priceInfo,
                                      image_src = image, imageUrl = image,
                                      sourcePlatform = aliexpress\<rparr>)))
         | _ \<Rightarrow> None)"

definition aliexpress_parseProducts :: "runtime \<Rightarrow> rat \<Rightarrow> string \<Rightarrow> PlatformProduct list" where
  "aliexpress_parseProducts rt maxResults html =
     each_container maxResults (aliexpress_item rt) (aliexpress_results rt html) []"

definition aliexpress_search ::
  "runtime \<Rightarrow> string \<Rightarrow> rat \<Rightarrow> (string \<Rightarrow> nat \<Rightarrow> fetch_outcome) \<Rightarrow> (nat \<Rightarrow> rat)
     \<Rightarrow> PlatformProduct list \<times> search_trace" where
  "aliexpress_search rt query maxResults http_get math_random =
     (let searchUrl = aliexpress_getSearchUrl query
      in if searchUrl = [] then ([], no_trace)
         else retry_loop aliexpress_isBotPage (aliexpress_parseProducts rt maxResults)
                (http_get searchUrl) math_random 1 no_trace)"

section \<open>The storefront-search adapter (shopify)\<close>

definition shopify_isBotPage :: "string \<Rightarrow> bool" where
  "shopify_isBotPage html =
     list_ex (\<lambda>pattern. regex_test_i pattern html)
       [''captcha'', ''verification'', ''enable javascript'']"

text \<open>\<open>SHOPIFY_DOMAIN_REGEX.test(url)\<close>: \<open>/(myshopify\.com|\.shopify\.com)/i\<close>.\<close>

definition SHOPIFY_DOMAIN_REGEX_test :: "string \<Rightarrow> bool" where
  "SHOPIFY_DOMAIN_REGEX_test s =
     (regex_test_i ''myshopify.com'' s \<or> regex_test_i ''.shopify.com'' s)"

text \<open>
  \<open>ShopifyScraper.normalizeResultLink\<close>. In the redirect branch a throw of \<open>new URL\<close> or
  of \<open>decodeURIComponent\<close> returns \<open>null\<close>; a missing or empty \<open>uddg\<close> falls through to
  the test for \<open>http\<close>.
\<close>

definition shopify_normalizeResultLink :: "runtime \<Rightarrow> string option \<Rightarrow> string option" where
  "shopify_normalizeResultLink rt rawHref =
     (case rawHref of
        None \<Rightarrow> None
      | Some h \<Rightarrow>
          (if h = [] then None
           else
             let direct = (if startsWith h ''http'' then Some h else None)
             in if startsWith h ''/l/?'' then
                  (case new_URL_base rt h SHOPIFY_SEARCH_BASE_URL of
                     None \<Rightarrow> None
                   | Some urlObject \<Rightarrow>
                       (case searchParams_get urlObject ''uddg'' of
                          None \<Rightarrow> direct
                        | Some encoded \<Rightarrow>
                            (if encoded = [] then direct
                             else decodeURIComponent rt encoded)))
                else direct))"

text \<open>The callback of \<open>ShopifyScraper.parseProducts\<close> after its check of the cap.\<close>

definition shopify_item :: "runtime \<Rightarrow> shopify_container \<Rightarrow> PlatformProduct option" where
  "shopify_item rt container =
     (case shopify_normalizeResultLink rt (result_anchor_href container) of
        None \<Rightarrow> None
      | Some resolved \<Rightarrow>
          (if resolved = [] \<or> \<not> SHOPIFY_DOMAIN_REGEX_test resolved then None
           else
             let titleText = trim (result_anchor_text container)
             in if titleText = [] then None
                else Some \<lparr>platform = shopify, title = units titleText, url = resolved,
                            price = None, currency = None, image_src = None, imageUrl = None,
                            sourcePlatform = shopify\<rparr>))"

definition shopify_parseProducts :: "runtime \<Rightarrow> rat \<Rightarrow> string \<Rightarrow> PlatformProduct list" where
  "shopify_parseProducts rt maxResults html =
     each_container maxResults (shopify_item rt) (shopify_results rt html) []"

definition shopify_search ::
  "runtime \<Rightarrow> string \<Rightarrow> rat \<Rightarrow> (string \<Rightarrow> nat \<Rightarrow> fetch_outcome) \<Rightarrow> (nat \<Rightarrow> rat)
     \<Rightarrow> PlatformProduct list \<times> search_trace" where
  "shopify_search rt query maxResults http_get math_random =
     (let searchUrl = shopify_getSearchUrl query
      in if searchUrl = [] then ([], no_trace)
         else retry_loop shopify_isBotPage (shopify_parseProducts rt maxResults)
                (http_get searchUrl) math_random 1 no_trace)"

section \<open>Notions the properties are stated with\<close>

text \<open>
  An attempt that the retry policy counts as a transient failure: a response with
  status 503 or 429, a response whose body is missing or blank, or an error thrown by
  the request.
\<close>

definition transient_failure :: "fetch_outcome \<Rightarrow> bool" where
  "transient_failure outcome =
     (case outcome of
        Response status data \<Rightarrow>
          status = 503 \<or> status = 429
          \<or> (case data of None \<Rightarrow> True | Some text \<Rightarrow> trim text = [])
      | AxiosFailure status \<Rightarrow> True
      | OtherFailure \<Rightarrow> True)"

text \<open>
  An attempt that succeeds with a body that is not blank and that the adapter's bot
  test matches.
\<close>

definition challenge_page :: "(string \<Rightarrow> bool) \<Rightarrow> fetch_outcome \<Rightarrow> bool" where
  "challenge_page isBot outcome =
     (case outcome of
        Response status data \<Rightarrow>
          status \<noteq> 503 \<and> status \<noteq> 429
          \<and> (case data of None \<Rightarrow> False | Some text \<Rightarrow> trim text \<noteq> [] \<and> isBot text)
      | AxiosFailure status \<Rightarrow> False
      | OtherFailure \<Rightarrow> False)"






section \<open>Sample pages\<close>

text \<open>
  Concrete inputs on which the theorems below are instantiated: five small pages, what
  the selectors find in each, and what the URL class answers for the links in them.
\<close>

definition sample_listing :: "jsstring \<Rightarrow> PlatformProduct" where
  "sample_listing t =
     \<lparr>platform = amazon, title = t, url = ''https://www.amazon.com/dp/B07XYZ1234'',
      price = None, currency = None, image_src = None, imageUrl = None,
      sourcePlatform = amazon\<rparr>"

definition sample_amazon_page :: string where
  "sample_amazon_page =
     ''<div class=s-main-slot>''
     @ ''<div class=s-result-item data-component-type=s-search-result>''
     @ ''<span class=s-sponsored-label-text>Sponsored</span>''
     @ ''<h2><a href=https://www.amazon.com/Sponsored-Mouse/dp/B000000001>''
     @ ''<span>Sponsored Mouse Deal</span></a></h2></div>''
     @ ''<div class=s-result-item data-component-type=s-search-result>''
     @ ''<h2><a href=https://www.amazon.com/Wireless-Mouse/dp/b07xyz1234?th=1>''
     @ ''<span>Wireless Mouse 2.4G</span></a></h2>''
     @ ''<span class=a-price><span class=a-price-symbol>$</span>''
     @ ''<span class=a-price-whole>12.</span><span class=a-price-fraction>99</span></span>''
     @ ''</div></div>''"

definition sample_amazon_containers :: "amazon_container list" where
  "sample_amazon_containers =
     [\<lparr>data_component_type = Some ''s-search-result'', sponsored_marks = 1,
       heading_span_text = ''Sponsored Mouse Deal'',
       heading_href = Some ''https://www.amazon.com/Sponsored-Mouse/dp/B000000001'',
       s_image_src = None, first_img_src = None, price_containers = 0,
       price_symbol_text = [], price_whole_text = [], price_fraction_text = []\<rparr>,
      \<lparr>data_component_type = Some ''s-search-result'', sponsored_marks = 0,
       heading_span_text = ''Wireless Mouse 2.4G'',
       heading_href = Some ''https://www.amazon.com/Wireless-Mouse/dp/b07xyz1234?th=1'',
       s_image_src = None, first_img_src = None, price_containers = 1,
       price_symbol_text = ''$'', price_whole_text = ''12.'', price_fraction_text = ''99''\<rparr>]"

text \<open>
  Three results whose links are a redirect link relative to the base, a relative link
  to a store page, and a link with a scheme of its own that starts with "http".
\<close>

definition sample_links_page :: string where
  "sample_links_page =
     ''<div class=s-main-slot>''
     @ ''<div class=s-result-item data-component-type=s-search-result>''
     @ ''<h2><a href=sspa/click?url=%2Fgp%2Fproduct%2Fb01abcdefg>''
     @ ''<span>Gift Mug</span></a></h2></div>''
     @ ''<div class=s-result-item data-component-type=s-search-result>''
     @ ''<h2><a href=stores/mugs//><span>Mug Store</span></a></h2></div>''
     @ ''<div class=s-result-item data-component-type=s-search-result>''
     @ ''<h2><a href=httpx:foo><span>Odd Link</span></a></h2></div>''
     @ ''</div>''"

definition sample_links_containers :: "amazon_container list" where
  "sample_links_containers =
     map (\<lambda>(heading, link).
            \<lparr>data_component_type = Some ''s-search-result'', sponsored_marks = 0,
             heading_span_text = heading, heading_href = Some link,
             s_image_src = None, first_img_src = None, price_containers = 0,
             price_symbol_text = [], price_whole_text = [], price_fraction_text = []\<rparr>)
       [(''Gift Mug'', ''sspa/click?url=%2Fgp%2Fproduct%2Fb01abcdefg''),
        (''Mug Store'', ''stores/mugs//''),
        (''Odd Link'', ''httpx:foo'')]"

definition sample_aliexpress_page :: string where
  "sample_aliexpress_page =
     ''<div class=list-item>''
     @ ''<a href=https://www.aliexpress.com/item/1005.html title=Mug>Red Mug</a>''
     @ ''<span class=price>US $1,234.50</span></div>''"

definition sample_aliexpress_containers :: "aliexpress_container list" where
  "sample_aliexpress_containers =
     [\<lparr>inner_item_anchor =
         Some \<lparr>a_href = Some ''https://www.aliexpress.com/item/1005.html'',
               a_title = Some ''Mug'', a_text = ''Red Mug''\<rparr>,
       closest_item_anchor = None, container_href = None,
       multi_title_text = [], manhattan_title_text = [],
       img_src = None, img_data_src = None, img_image_src = None,
       multi_price_text = [], manhattan_price_text = [],
       price_class_text = ''US $1,234.50'', price_current_text = []\<rparr>]"

text \<open>A card whose title stands only in the second title class and in the anchor text.\<close>

definition sample_fallback_title_page :: string where
  "sample_fallback_title_page =
     ''<div class=list-item>''
     @ ''<a href=https://www.aliexpress.com/item/1005.html>''
     @ ''<span class=manhattan--titleText--WccSjUS>Red Mug</span></a></div>''"

definition sample_fallback_title_containers :: "aliexpress_container list" where
  "sample_fallback_title_containers =
     [\<lparr>inner_item_anchor =
         Some \<lparr>a_href = Some ''https://www.aliexpress.com/item/1005.html'',
               a_title = None, a_text = ''Red Mug''\<rparr>,
       closest_item_anchor = None, container_href = None,
       multi_title_text = [], manhattan_title_text = ''Red Mug'',
       img_src = None, img_data_src = None, img_image_src = None,
       multi_price_text = [], manhattan_price_text = [],
       price_class_text = [], price_current_text = []\<rparr>]"

definition sample_shopify_page :: string where
  "sample_shopify_page =
     ''<div class=result><a class=result__a href=http//mug.myshopify.com/products/mug>''
     @ ''Mug</a></div>''
     @ ''<div class=result><a class=result__a href=https://mug.myshopify.com/products/red-mug>''
     @ ''Red Mug</a></div>''"

definition sample_shopify_containers :: "shopify_container list" where
  "sample_shopify_containers =
     [\<lparr>result_anchor_href = Some ''http//mug.myshopify.com/products/mug'',
       result_anchor_text = ''Mug''\<rparr>,
      \<lparr>result_anchor_href = Some ''https://mug.myshopify.com/products/red-mug'',
       result_anchor_text = ''Red Mug''\<rparr>]"

definition sample_product_url :: url_object where
  "sample_product_url =
     \<lparr>origin = ''https://www.amazon.com'', pathname = ''/Wireless-Mouse/dp/b07xyz1234'',
      searchParams = [(''th'', ''1'')],
      href = ''https://www.amazon.com/Wireless-Mouse/dp/b07xyz1234?th=1''\<rparr>"

definition sample_store_url :: url_object where
  "sample_store_url =
     \<lparr>origin = ''https://www.amazon.com'', pathname = ''/stores/mugs//'',
      searchParams = [], href = ''https://www.amazon.com/stores/mugs//''\<rparr>"

text \<open>
  The URL objects of the three links above: the redirect link with its decoded
  parameter, its target, and the link with the scheme \<open>httpx\<close>, whose origin is opaque
  and serialises as "null" and whose path is what follows the colon. The last is the
  URL object of a link that starts with a slash, made absolute as the adapter does it.
\<close>

definition sample_redirect_url :: url_object where
  "sample_redirect_url =
     \<lparr>origin = ''https://www.amazon.com'', pathname = ''/sspa/click'',
      searchParams = [(''url'', ''/gp/product/b01abcdefg'')],
      href = ''https://www.amazon.com/sspa/click?url=%2Fgp%2Fproduct%2Fb01abcdefg''\<rparr>"

definition sample_target_url :: url_object where
  "sample_target_url =
     \<lparr>origin = ''https://www.amazon.com'', pathname = ''/gp/product/b01abcdefg'',
      searchParams = [], href = ''https://www.amazon.com/gp/product/b01abcdefg''\<rparr>"

definition sample_opaque_url :: url_object where
  "sample_opaque_url =
     \<lparr>origin = ''null'', pathname = ''foo'', searchParams = [], href = ''httpx:foo''\<rparr>"

definition sample_joined_url :: url_object where
  "sample_joined_url =
     \<lparr>origin = ''https://www.amazon.comdp'', pathname = ''/B07XYZ1234'',
      searchParams = [], href = ''https://www.amazon.comdp/B07XYZ1234''\<rparr>"

definition sample_new_URL :: "string \<Rightarrow> url_object option" where
  "sample_new_URL s =
     (if s = ''https://www.amazon.com/Wireless-Mouse/dp/b07xyz1234?th=1'' then
        Some sample_product_url
      else if s = ''https://www.aliexpress.com/item/1005.html'' then
        Some \<lparr>origin = ''https://www.aliexpress.com'', pathname = ''/item/1005.html'',
              searchParams = [], href = s\<rparr>
      else if s = href sample_redirect_url then Some sample_redirect_url
      else if s = href sample_target_url then Some sample_target_url
      else if s = href sample_store_url then Some sample_store_url
      else if s = href sample_opaque_url then Some sample_opaque_url
      else if s = href sample_joined_url then Some sample_joined_url
      else None)"

definition sample_new_URL_base :: "string \<Rightarrow> string \<Rightarrow> url_object option" where
  "sample_new_URL_base s base = None"

text \<open>\<open>decodeURIComponent\<close> changes nothing in a string without a percent sign.\<close>

definition sample_decodeURIComponent :: "string \<Rightarrow> string option" where
  "sample_decodeURIComponent s = (if CHR ''%'' \<in> set s then None else Some s)"

definition sample_amazon_results :: "string \<Rightarrow> amazon_container list" where
  "sample_amazon_results html =
     (if html = sample_amazon_page then sample_amazon_containers
      else if html = sample_links_page then sample_links_containers
      else [])"

definition sample_aliexpress_results :: "string \<Rightarrow> aliexpress_container list" where
  "sample_aliexpress_results html =
     (if html = sample_aliexpress_page then sample_aliexpress_containers
      else if html = sample_fallback_title_page then sample_fallback_title_containers
      else [])"

definition sample_shopify_results :: "string \<Rightarrow> shopify_container list" where
  "sample_shopify_results html =
     (if html = sample_shopify_page then sample_shopify_containers else [])"

definition sample_runtime :: runtime where
  "sample_runtime =
     \<lparr>new_URL = sample_new_URL, new_URL_base = sample_new_URL_base,
      decodeURIComponent = sample_decodeURIComponent,
      amazon_results = sample_amazon_results,
      aliexpress_results = sample_aliexpress_results,
      shopify_results = sample_shopify_results\<rparr>"

definition sample_challenge_page :: string where
  "sample_challenge_page =
     ''<html><title>Robot Check</title><p>Solve the CAPTCHA for verification; ''
     @ ''please enable JavaScript.</p></html>''"

text \<open>Three networks: every request answered 503, by the challenge page, by a given page.\<close>

definition always_503 :: "string \<Rightarrow> nat \<Rightarrow> fetch_outcome" where
  "always_503 searchUrl n = Response 503 None"

definition always_challenge :: "string \<Rightarrow> nat \<Rightarrow> fetch_outcome" where
  "always_challenge searchUrl n = Response 200 (Some sample_challenge_page)"

definition always_page :: "string \<Rightarrow> string \<Rightarrow> nat \<Rightarrow> fetch_outcome" where
  "always_page page searchUrl n = Response 200 (Some page)"

definition sample_random :: "nat \<Rightarrow> rat" where
  "sample_random n = 1 / 2"

definition sample_store :: array_store where
  "sample_store =
     \<lparr>arrays = [[sample_listing (units ''blue plate''), sample_listing (units ''a red mug set''),
                 sample_listing (units ''red mug'')]]\<rparr>"

section \<open>Ranking\<close>

lemma length_units: "length (units s) = length s"
  by (simp add: units_def)

lemma units_Nil_iff: "units s = [] \<longleftrightarrow> s = []"
  by (simp add: units_def)

text \<open>Lower-casing keeps the length of a string that holds no U+0130.\<close>

lemma length_lower_units: "n \<noteq> 304 \<Longrightarrow> length (lower_units n) = 1"
  by (simp add: lower_units_def)

lemma length_toLowerCase: "304 \<notin> set s \<Longrightarrow> length (toLowerCase s) = length s"
  by (induction s) (simp_all add: toLowerCase_def length_lower_units)

text \<open>
  Sorting by \<open>computeScore(b) - computeScore(a)\<close> is the library's stable insertion sort
  on the negated score.
\<close>

lemma sort_insert_insort_key:
  "sort_insert (\<lambda>a b. f b - f a) x ys = insort_key (\<lambda>p. - f p) x ys"
  by (induction ys) auto

lemma js_sort_sort_key: "js_sort (\<lambda>a b. f b - f a) xs = sort_key (\<lambda>p. - f p) xs"
  by (induction xs) (simp_all add: js_sort_def sort_insert_insort_key)

lemma sortByRelevance_sort_key:
  "sortByRelevance q ps = sort_key (\<lambda>p. - computeScore q p) ps"
  unfolding sortByRelevance_def by (rule js_sort_sort_key)

lemma sortByRelevance_descending:
  "sorted_wrt (\<lambda>a b. computeScore q b \<le> computeScore q a) (sortByRelevance q ps)"
proof -
  have "sorted (map (\<lambda>p. - computeScore q p) (sortByRelevance q ps))"
    by (simp add: sortByRelevance_sort_key)
  then show ?thesis by (simp add: sorted_map)
qed

lemma sortByRelevance_stable:
  "filter (\<lambda>p. computeScore q p = s) (sortByRelevance q ps)
     = filter (\<lambda>p. computeScore q p = s) ps"
proof -
  have "filter (\<lambda>p. - computeScore q p = - s) (sort_key (\<lambda>p. - computeScore q p) ps)
          = filter (\<lambda>p. - computeScore q p = - s) ps"
    by (rule sort_key_stable)
  then show ?thesis by (simp add: sortByRelevance_sort_key)
qed

lemma mset_sortByRelevance: "mset (sortByRelevance q ps) = mset ps"
  by (simp add: sortByRelevance_sort_key)

text \<open>The score as the code computes it: both lengths are taken after lower-casing.\<close>

lemma score_formula:
  "title p \<noteq> [] \<Longrightarrow>
     computeScore q p =
       (if js_includes (toLowerCase (title p)) (toLowerCase q) then 2 else 0)
       + max 0 (1 - of_int \<bar>int (length (toLowerCase (title p))) - int (length (toLowerCase q))\<bar>
                      / of_nat (max (length (toLowerCase q)) 1))"
  by (simp add: computeScore_def Let_def)

lemma score_formula_plain:
  "title p \<noteq> [] \<Longrightarrow> 304 \<notin> set (title p) \<Longrightarrow> 304 \<notin> set q \<Longrightarrow>
     computeScore q p =
       (if js_includes (toLowerCase (title p)) (toLowerCase q) then 2 else 0)
       + max 0 (1 - of_int \<bar>int (length (title p)) - int (length q)\<bar> / of_nat (max (length q) 1))"
  by (simp add: score_formula length_toLowerCase)

lemma lower_red_mug: "toLowerCase (units ''red mug'') = units ''red mug''"
  by code_simp

lemma lower_red_mug_set: "toLowerCase (units ''a red mug set'') = units ''a red mug set''"
  by code_simp

lemma lower_blue_plate: "toLowerCase (units ''blue plate'') = units ''blue plate''"
  by code_simp

lemma includes_red_mug: "js_includes (units ''red mug'') (units ''red mug'')"
  by code_simp

lemma includes_red_mug_set: "js_includes (units ''a red mug set'') (units ''red mug'')"
  by code_simp

lemma not_includes_blue_plate: "\<not> js_includes (units ''blue plate'') (units ''red mug'')"
  by code_simp

lemma score_red_mug: "title a = units ''red mug'' \<Longrightarrow> computeScore (units ''red mug'') a = 3"
  by (simp add: computeScore_def Let_def lower_red_mug includes_red_mug length_units
        units_Nil_iff del: js_includes.simps)

lemma score_red_mug_set:
  "title b = units ''a red mug set'' \<Longrightarrow> computeScore (units ''red mug'') b = 15 / 7"
  by (simp add: computeScore_def Let_def lower_red_mug lower_red_mug_set includes_red_mug_set
        length_units units_Nil_iff del: js_includes.simps)

lemma score_blue_plate:
  "title c = units ''blue plate'' \<Longrightarrow> computeScore (units ''red mug'') c = 4 / 7"
  by (simp add: computeScore_def Let_def lower_red_mug lower_blue_plate not_includes_blue_plate
        length_units units_Nil_iff del: js_includes.simps)

lemma red_mug_order:
  "title a = units ''red mug'' \<Longrightarrow> title b = units ''a red mug set'' \<Longrightarrow>
   title c = units ''blue plate'' \<Longrightarrow>
     sortByRelevance (units ''red mug'') [c, b, a] = [a, b, c]"
  by (simp add: sortByRelevance_def js_sort_def score_red_mug score_red_mug_set score_blue_plate)

lemma sample_listing_title: "title (sample_listing t) = t"
  by (simp add: sample_listing_def)

text \<open>
  C3 as stated fails on the query \<open>i\<close> and the title U+0130. The title has one code unit and its lower-case
  form has two, \<open>i\<close> and U+0307; the score is 2. The formula with the lengths of the
  title and of the query as they are gives 3 for the same pair.
\<close>

lemma lower_dotted_I: "toLowerCase [304] = [105, 775]"
  by (simp add: toLowerCase_def lower_units_def)

lemma lower_i: "toLowerCase [105] = [105]"
  by (simp add: toLowerCase_def lower_units_def)

lemma units_i: "units ''i'' = [105]"
  by code_simp

theorem score_length_after_lowercase_counterexample:
  "title (sample_listing [304]) \<noteq> []
   \<and> computeScore (units ''i'') (sample_listing [304]) = 2
   \<and> (if js_includes (toLowerCase (title (sample_listing [304]))) (toLowerCase (units ''i''))
       then 2 else 0)
      + max 0 (1 - of_int \<bar>int (length (title (sample_listing [304]))) - int (length (units ''i''))\<bar>
                     / of_nat (max (length (units ''i'')) 1))
      = (3 :: rat)"
  by (simp add: computeScore_def Let_def sample_listing_title lower_dotted_I lower_i units_i
        startsWith_def)

text \<open>
  C3, amended. The score of a listing with a non-empty title is 2 when the lower-cased
  title contains the lower-cased query, else 0, plus \<open>max(0, 1 - |len(t') - len(q')| /
  max(len(q'), 1))\<close>, where \<open>t'\<close> and \<open>q'\<close> are the lower-cased title and the lower-cased
  query; when neither the title nor the query holds U+0130 these are the lengths of
  the title and of the query themselves; a listing with an empty title scores 0; the
  ranked sequence is in descending order of score, and the listings of any one score
  keep the order they had in the input; for the query "red mug" a listing titled
  "red mug" scores higher than one titled "a red mug set", which scores higher than one
  titled "blue plate", and ranking the three from the reverse order puts them in that
  order.
\<close>

theorem relevance_score_and_order:
  "(title p \<noteq> [] \<longrightarrow>
      computeScore q p =
        (if js_includes (toLowerCase (title p)) (toLowerCase q) then 2 else 0)
        + max 0 (1 - of_int \<bar>int (length (toLowerCase (title p))) - int (length (toLowerCase q))\<bar>
                       / of_nat (max (length (toLowerCase q)) 1)))
   \<and> (title p \<noteq> [] \<and> 304 \<notin> set (title p) \<and> 304 \<notin> set q \<longrightarrow>
      computeScore q p =
        (if js_includes (toLowerCase (title p)) (toLowerCase q) then 2 else 0)
        + max 0 (1 - of_int \<bar>int (length (title p)) - int (length q)\<bar>
                       / of_nat (max (length q) 1)))
   \<and> (title e = [] \<longrightarrow> computeScore q e = 0)
   \<and> sorted_wrt (\<lambda>x y. computeScore q y \<le> computeScore q x) (sortByRelevance q ps)
   \<and> (\<forall>s. filter (\<lambda>x. computeScore q x = s) (sortByRelevance q ps)
            = filter (\<lambda>x. computeScore q x = s) ps)
   \<and> (title a = units ''red mug'' \<and> title b = units ''a red mug set''
        \<and> title c = units ''blue plate'' \<longrightarrow>
        computeScore (units ''red mug'') a > computeScore (units ''red mug'') b
        \<and> computeScore (units ''red mug'') b > computeScore (units ''red mug'') c
        \<and> sortByRelevance (units ''red mug'') [c, b, a] = [a, b, c])"
proof (intro conjI impI allI)
  assume "title p \<noteq> []"
  then show "computeScore q p =
        (if js_includes (toLowerCase (title p)) (toLowerCase q) then 2 else 0)
        + max 0 (1 - of_int \<bar>int (length (toLowerCase (title p))) - int (length (toLowerCase q))\<bar>
                       / of_nat (max (length (toLowerCase q)) 1))"
    by (rule score_formula)
next
  assume "title p \<noteq> [] \<and> 304 \<notin> set (title p) \<and> 304 \<notin> set q"
  then show "computeScore q p =
        (if js_includes (toLowerCase (title p)) (toLowerCase q) then 2 else 0)
        + max 0 (1 - of_int \<bar>int (length (title p)) - int (length q)\<bar>
                       / of_nat (max (length q) 1))"
    by (simp add: score_formula_plain)
next
  assume "title e = []"
  then show "computeScore q e = 0" by (simp add: computeScore_def)
next
  show "sorted_wrt (\<lambda>x y. computeScore q y \<le> computeScore q x) (sortByRelevance q ps)"
    by (rule sortByRelevance_descending)
next
  fix s
  show "filter (\<lambda>x. computeScore q x = s) (sortByRelevance q ps)
          = filter (\<lambda>x. computeScore q x = s) ps"
    by (rule sortByRelevance_stable)
next
  assume t: "title a = units ''red mug'' \<and> title b = units ''a red mug set''
        \<and> title c = units ''blue plate''"
  then show "computeScore (units ''red mug'') b < computeScore (units ''red mug'') a"
    by (simp add: score_red_mug score_red_mug_set)
  from t show "computeScore (units ''red mug'') c < computeScore (units ''red mug'') b"
    by (simp add: score_red_mug_set score_blue_plate)
  from t show "sortByRelevance (units ''red mug'') [c, b, a] = [a, b, c]"
    by (simp add: red_mug_order)
qed

text \<open>
  The theorem on a title and a query that differ in letter case only, on a listing
  without a title, and on the three listings of the example.
\<close>

lemma no_dotted_I_mixed: "304 \<notin> set (units ''RED Mug'') \<and> 304 \<notin> set (units ''Red MUG'')"
  by code_simp

lemma includes_mixed:
  "js_includes (toLowerCase (units ''RED Mug'')) (toLowerCase (units ''Red MUG''))"
  by code_simp

theorem relevance_score_and_order_witness:
  "title (sample_listing (units ''RED Mug'')) \<noteq> []
   \<and> 304 \<notin> set (title (sample_listing (units ''RED Mug''))) \<and> 304 \<notin> set (units ''Red MUG'')
   \<and> computeScore (units ''Red MUG'') (sample_listing (units ''RED Mug'')) = 3
   \<and> title (sample_listing []) = []
   \<and> computeScore (units ''Red MUG'') (sample_listing []) = 0
   \<and> computeScore (units ''red mug'') (sample_listing (units ''red mug'')) = 3
   \<and> computeScore (units ''red mug'') (sample_listing (units ''a red mug set'')) = 15 / 7
   \<and> computeScore (units ''red mug'') (sample_listing (units ''blue plate'')) = 4 / 7
   \<and> sortByRelevance (units ''red mug'')
        [sample_listing (units ''blue plate''), sample_listing (units ''a red mug set''),
         sample_listing (units ''red mug'')]
      = [sample_listing (units ''red mug''), sample_listing (units ''a red mug set''),
         sample_listing (units ''blue plate'')]"
proof -
  note t = relevance_score_and_order
    [of "sample_listing (units ''RED Mug'')" "units ''Red MUG''" "sample_listing []" "[]"
        "sample_listing (units ''red mug'')" "sample_listing (units ''a red mug set'')"
        "sample_listing (units ''blue plate'')"]
  have nonempty: "title (sample_listing (units ''RED Mug'')) \<noteq> []"
    by (simp add: sample_listing_title units_Nil_iff)
  have plain: "304 \<notin> set (title (sample_listing (units ''RED Mug'')))"
      "304 \<notin> set (units ''Red MUG'')"
    using no_dotted_I_mixed by (simp_all add: sample_listing_title)
  have untitled: "title (sample_listing []) = []"
    by (simp add: sample_listing_title)
  from t nonempty plain
  have "computeScore (units ''Red MUG'') (sample_listing (units ''RED Mug'')) =
        (if js_includes (toLowerCase (title (sample_listing (units ''RED Mug''))))
              (toLowerCase (units ''Red MUG'')) then 2 else 0)
        + max 0 (1 - of_int \<bar>int (length (title (sample_listing (units ''RED Mug''))))
                              - int (length (units ''Red MUG''))\<bar>
                       / of_nat (max (length (units ''Red MUG'')) 1))"
    by blast
  then have mixed: "computeScore (units ''Red MUG'') (sample_listing (units ''RED Mug'')) = 3"
    by (simp add: sample_listing_title includes_mixed length_units del: js_includes.simps)
  from t untitled have none: "computeScore (units ''Red MUG'') (sample_listing []) = 0"
    by blast
  show ?thesis
    using nonempty plain mixed untitled none
    by (simp add: sample_listing_title score_red_mug score_red_mug_set score_blue_plate
          red_mug_order)
qed

text \<open>
  C10. Ranking returns a permutation of the list it is given, and it leaves that list
  as it was: the result is a new array, and every array that existed before the call,
  the argument among them, holds what it held.
\<close>

theorem sortByRelevance_permutes_and_preserves_input:
  "mset (sortByRelevance q ps) = mset ps
   \<and> (products < length (arrays st) \<longrightarrow>
        (case sortByRelevance_store q st products of
           (result, st') \<Rightarrow>
             result \<noteq> products
             \<and> arrays st' ! result = sortByRelevance q (arrays st ! products)
             \<and> mset (arrays st' ! result) = mset (arrays st ! products)
             \<and> arrays st' ! products = arrays st ! products
             \<and> take (length (arrays st)) (arrays st') = arrays st))"
proof (intro conjI impI)
  show "mset (sortByRelevance q ps) = mset ps" by (rule mset_sortByRelevance)
next
  assume "products < length (arrays st)"
  then show "case sortByRelevance_store q st products of
           (result, st') \<Rightarrow>
             result \<noteq> products
             \<and> arrays st' ! result = sortByRelevance q (arrays st ! products)
             \<and> mset (arrays st' ! result) = mset (arrays st ! products)
             \<and> arrays st' ! products = arrays st ! products
             \<and> take (length (arrays st)) (arrays st') = arrays st"
    by (simp add: sortByRelevance_store_def spread_copy_def sort_in_place_def
          mset_sortByRelevance nth_append flip: sortByRelevance_def)
qed

theorem sortByRelevance_permutes_and_preserves_input_witness:
  "0 < length (arrays sample_store)
   \<and> fst (sortByRelevance_store (units ''red mug'') sample_store 0) = 1
   \<and> arrays (snd (sortByRelevance_store (units ''red mug'') sample_store 0)) ! 0
       = [sample_listing (units ''blue plate''), sample_listing (units ''a red mug set''),
          sample_listing (units ''red mug'')]
   \<and> arrays (snd (sortByRelevance_store (units ''red mug'') sample_store 0)) ! 1
       = [sample_listing (units ''red mug''), sample_listing (units ''a red mug set''),
          sample_listing (units ''blue plate'')]"
  using sortByRelevance_permutes_and_preserves_input [of "units ''red mug''" "[]" 0 sample_store]
  by (simp add: sample_store_def sortByRelevance_store_def spread_copy_def sort_in_place_def
        sample_listing_title red_mug_order flip: sortByRelevance_def)

section \<open>Isolation of the adapters\<close>

lemma run_platform_fulfils:
  "run_platform q scrapers p =
     Inr (case scrapers p of Inr products \<Rightarrow> sortByRelevance q products | Inl e \<Rightarrow> [])"
  by (simp add: run_platform_def split: sum.splits)

text \<open>
  C1. Whatever the three adapters do, \<open>runAll\<close> returns a result set and throws
  nothing; the set has one entry for each of amazon, aliexpress and shopify; the entry
  of an adapter that threw is the empty sequence, and the entry of every other adapter
  is the ranked sequence of what it returned.
\<close>

theorem runAll_isolates_failures:
  "\<exists>m. runAll q scrapers = Inr m
     \<and> amazon_matches m =
         (case scrapers amazon of Inr products \<Rightarrow> sortByRelevance q products | Inl e \<Rightarrow> [])
     \<and> aliexpress_matches m =
         (case scrapers aliexpress of Inr products \<Rightarrow> sortByRelevance q products | Inl e \<Rightarrow> [])
     \<and> shopify_matches m =
         (case scrapers shopify of Inr products \<Rightarrow> sortByRelevance q products | Inl e \<Rightarrow> [])"
  by (simp add: runAll_def platforms_def run_platform_fulfils)

section \<open>Retry, backoff and challenge pages\<close>

text \<open>No search address is empty, so each \<open>search()\<close> is its loop from attempt 1.\<close>

lemma amazon_search_loop:
  "amazon_search rt q m http_get math_random =
     retry_loop amazon_isBotPage (amazon_parseProducts rt m)
       (http_get (amazon_getSearchUrl q)) math_random 1 no_trace"
  by (simp add: amazon_search_def amazon_getSearchUrl_def AMAZON_BASE_URL_def)

lemma aliexpress_search_loop:
  "aliexpress_search rt q m http_get math_random =
     retry_loop aliexpress_isBotPage (aliexpress_parseProducts rt m)
       (http_get (aliexpress_getSearchUrl q)) math_random 1 no_trace"
  by (simp add: aliexpress_search_def aliexpress_getSearchUrl_def ALIEXPRESS_BASE_URL_def)

lemma shopify_search_loop:
  "shopify_search rt q m http_get math_random =
     retry_loop shopify_isBotPage (shopify_parseProducts rt m)
       (http_get (shopify_getSearchUrl q)) math_random 1 no_trace"
  by (simp add: shopify_search_def shopify_getSearchUrl_def SHOPIFY_SEARCH_BASE_URL_def)

lemma retry_loop_transient:
  "attempt \<le> maxRetries \<Longrightarrow> transient_failure (g attempt) \<Longrightarrow>
   retry_loop isBot parse g r attempt tr =
     retry_loop isBot parse g r (Suc attempt)
       (maybeRetry r attempt maxRetries (tr\<lparr>attempts := Suc (attempts tr)\<rparr>))"
  by (subst retry_loop.simps)
     (auto simp: transient_failure_def Let_def split: fetch_outcome.splits option.splits)

lemma retry_loop_challenge:
  "attempt \<le> maxRetries \<Longrightarrow> challenge_page isBot (g attempt) \<Longrightarrow>
   retry_loop isBot parse g r attempt tr = ([], tr\<lparr>attempts := Suc (attempts tr)\<rparr>)"
  by (subst retry_loop.simps)
     (auto simp: challenge_page_def Let_def split: fetch_outcome.splits option.splits)

lemma retry_loop_exhausted:
  "\<not> attempt \<le> maxRetries \<Longrightarrow> retry_loop isBot parse g r attempt tr = ([], tr)"
  by (subst retry_loop.simps) simp

lemma delay_range:
  fixes x :: rat
  assumes "0 \<le> x" "x < 1"
  shows "300 \<le> 300 + \<lfloor>x * 300\<rfloor> \<and> 300 + \<lfloor>x * 300\<rfloor> < 600"
proof -
  have "0 \<le> x * 300" using assms by simp
  then have lower: "0 \<le> \<lfloor>x * 300\<rfloor>" by simp
  have "x * 300 < 300" using assms by simp
  then have upper: "\<lfloor>x * 300\<rfloor> < 300" by (simp add: floor_less_iff)
  from lower upper show ?thesis by simp
qed

lemma three_failures_Suc:
  assumes "transient_failure (g (Suc 0))" "transient_failure (g (Suc (Suc 0)))"
    "transient_failure (g (Suc (Suc (Suc 0))))"
  shows "retry_loop isBot parse g r (Suc 0) no_trace =
           ([], \<lparr>attempts = 3, delays = [300 + \<lfloor>r 0 * 300\<rfloor>, 300 + \<lfloor>r 1 * 300\<rfloor>]\<rparr>)"
proof -
  have m: "maxRetries = Suc (Suc (Suc 0))" by (simp add: maxRetries_def)
  have 1: "retry_loop isBot parse g r (Suc 0) no_trace =
        retry_loop isBot parse g r (Suc (Suc 0)) \<lparr>attempts = 1, delays = [300 + \<lfloor>r 0 * 300\<rfloor>]\<rparr>"
    using retry_loop_transient [of "Suc 0" g isBot parse r no_trace] assms(1)
    by (simp add: m maybeRetry_def no_trace_def)
  have 2: "retry_loop isBot parse g r (Suc (Suc 0)) \<lparr>attempts = 1, delays = [300 + \<lfloor>r 0 * 300\<rfloor>]\<rparr> =
        retry_loop isBot parse g r (Suc (Suc (Suc 0)))
          \<lparr>attempts = 2, delays = [300 + \<lfloor>r 0 * 300\<rfloor>, 300 + \<lfloor>r 1 * 300\<rfloor>]\<rparr>"
    using retry_loop_transient [of "Suc (Suc 0)" g isBot parse r
        "\<lparr>attempts = 1, delays = [300 + \<lfloor>r 0 * 300\<rfloor>]\<rparr>"] assms(2)
    by (simp add: m maybeRetry_def eval_nat_numeral)
  have 3: "retry_loop isBot parse g r (Suc (Suc (Suc 0)))
          \<lparr>attempts = 2, delays = [300 + \<lfloor>r 0 * 300\<rfloor>, 300 + \<lfloor>r 1 * 300\<rfloor>]\<rparr> =
        retry_loop isBot parse g r (Suc (Suc (Suc (Suc 0))))
          \<lparr>attempts = 3, delays = [300 + \<lfloor>r 0 * 300\<rfloor>, 300 + \<lfloor>r 1 * 300\<rfloor>]\<rparr>"
    using retry_loop_transient [of "Suc (Suc (Suc 0))" g isBot parse r
        "\<lparr>attempts = 2, delays = [300 + \<lfloor>r 0 * 300\<rfloor>, 300 + \<lfloor>r 1 * 300\<rfloor>]\<rparr>"] assms(3)
    by (simp add: m maybeRetry_def eval_nat_numeral)
  have 4: "retry_loop isBot parse g r (Suc (Suc (Suc (Suc 0)))) tr = ([], tr)" for tr
    by (rule retry_loop_exhausted) (simp add: m)
  show ?thesis by (simp only: 1 2 3 4)
qed

lemma three_failures_run:
  assumes "\<forall>n. 0 \<le> r n \<and> r n < 1"
    and "transient_failure (g 1) \<and> transient_failure (g 2) \<and> transient_failure (g 3)"
  shows "case retry_loop isBot parse g r 1 no_trace of
           (products, tr) \<Rightarrow>
             products = [] \<and> attempts tr = 3 \<and> length (delays tr) = 2
             \<and> list_all (\<lambda>d. 300 \<le> d \<and> d < 600) (delays tr)"
proof -
  have run: "retry_loop isBot parse g r 1 no_trace =
           ([], \<lparr>attempts = 3, delays = [300 + \<lfloor>r 0 * 300\<rfloor>, 300 + \<lfloor>r 1 * 300\<rfloor>]\<rparr>)"
    using three_failures_Suc [of g isBot parse r] assms(2) by (simp add: eval_nat_numeral)
  have "0 \<le> r 0" "r 0 < 1" "0 \<le> r 1" "r 1 < 1" using assms(1) by simp_all
  then show ?thesis
    unfolding run using delay_range [of "r 0"] delay_range [of "r 1"] by simp
qed

text \<open>
  C4. For each of the three adapters: when the first three attempts all fail
  transiently (status 503 or 429, a missing or blank body, or a thrown error), and
  \<open>Math.random()\<close> returns values in [0, 1), \<open>search()\<close> returns the empty sequence
  after exactly 3 attempts and exactly 2 delays, each at least 300 and below 600
  milliseconds.
\<close>

theorem three_transient_failures_exhaust:
  assumes "\<forall>n. 0 \<le> math_random n \<and> math_random n < 1"
  shows
    "(transient_failure (http_get (amazon_getSearchUrl q) 1)
        \<and> transient_failure (http_get (amazon_getSearchUrl q) 2)
        \<and> transient_failure (http_get (amazon_getSearchUrl q) 3) \<longrightarrow>
      (case amazon_search rt q m http_get math_random of
         (products, tr) \<Rightarrow>
           products = [] \<and> attempts tr = 3 \<and> length (delays tr) = 2
           \<and> list_all (\<lambda>d. 300 \<le> d \<and> d < 600) (delays tr)))
     \<and> (transient_failure (http_get (aliexpress_getSearchUrl q) 1)
        \<and> transient_failure (http_get (aliexpress_getSearchUrl q) 2)
        \<and> transient_failure (http_get (aliexpress_getSearchUrl q) 3) \<longrightarrow>
      (case aliexpress_search rt q m http_get math_random of
         (products, tr) \<Rightarrow>
           products = [] \<and> attempts tr = 3 \<and> length (delays tr) = 2
           \<and> list_all (\<lambda>d. 300 \<le> d \<and> d < 600) (delays tr)))
     \<and> (transient_failure (http_get (shopify_getSearchUrl q) 1)
        \<and> transient_failure (http_get (shopify_getSearchUrl q) 2)
        \<and> transient_failure (http_get (shopify_getSearchUrl q) 3) \<longrightarrow>
      (case shopify_search rt q m http_get math_random of
         (products, tr) \<Rightarrow>
           products = [] \<and> attempts tr = 3 \<and> length (delays tr) = 2
           \<and> list_all (\<lambda>d. 300 \<le> d \<and> d < 600) (delays tr)))"
  unfolding amazon_search_loop aliexpress_search_loop shopify_search_loop
  by (intro conjI impI; rule three_failures_run [OF assms]; assumption)

lemma sample_random_range: "\<forall>n. 0 \<le> sample_random n \<and> sample_random n < 1"
  by (simp add: sample_random_def)

lemma always_503_transient: "transient_failure (always_503 searchUrl n)"
  by (simp add: always_503_def transient_failure_def)

lemma amazon_search_503:
  "amazon_search sample_runtime ''wireless mouse'' 10 always_503 sample_random
     = ([], \<lparr>attempts = 3, delays = [450, 450]\<rparr>)"
  by code_simp

theorem three_transient_failures_exhaust_witness:
  "(\<forall>n. 0 \<le> sample_random n \<and> sample_random n < 1)
   \<and> transient_failure (always_503 (amazon_getSearchUrl ''wireless mouse'') 1)
   \<and> transient_failure (always_503 (amazon_getSearchUrl ''wireless mouse'') 2)
   \<and> transient_failure (always_503 (amazon_getSearchUrl ''wireless mouse'') 3)
   \<and> fst (amazon_search sample_runtime ''wireless mouse'' 10 always_503 sample_random) = []
   \<and> attempts (snd (amazon_search sample_runtime ''wireless mouse'' 10 always_503 sample_random)) = 3
   \<and> delays (snd (amazon_search sample_runtime ''wireless mouse'' 10 always_503 sample_random))
       = [450, 450]
   \<and> fst (aliexpress_search sample_runtime ''wireless mouse'' 10 always_503 sample_random) = []
   \<and> length (delays (snd (aliexpress_search sample_runtime ''wireless mouse'' 10 always_503
        sample_random))) = 2
   \<and> fst (shopify_search sample_runtime ''wireless mouse'' 10 always_503 sample_random) = []
   \<and> length (delays (snd (shopify_search sample_runtime ''wireless mouse'' 10 always_503
        sample_random))) = 2"
  using three_transient_failures_exhaust [OF sample_random_range,
      of always_503 "''wireless mouse''" sample_runtime 10]
  by (simp add: always_503_transient sample_random_range amazon_search_503 split: prod.splits)

lemma challenge_run:
  assumes "k \<le> maxRetries" "challenge_page isBot (g k)"
      and "\<forall>j. a \<le> j \<and> j < k \<longrightarrow> transient_failure (g j)"
      and "a \<le> k"
  shows "\<exists>tr'. retry_loop isBot parse g r a tr = ([], tr')
            \<and> attempts tr' + a = attempts tr + k + 1
            \<and> length (delays tr') + a = length (delays tr) + k"
  using assms(3-4)
proof (induction "k - a" arbitrary: a tr)
  case 0
  then have "a = k" by simp
  with assms(1,2) show ?case
    using retry_loop_challenge [of k isBot g parse r tr] by simp
next
  case (Suc n)
  then have lt: "a < k" by simp
  with Suc.prems have tf: "transient_failure (g a)" by simp
  from lt assms(1) have le: "a \<le> maxRetries" "\<not> a \<ge> maxRetries" by simp_all
  let ?tr = "maybeRetry r a maxRetries (tr\<lparr>attempts := Suc (attempts tr)\<rparr>)"
  have step: "retry_loop isBot parse g r a tr = retry_loop isBot parse g r (Suc a) ?tr"
    using retry_loop_transient [of a g isBot parse r tr] le(1) tf by simp
  have tr1: "attempts ?tr = attempts tr + 1" "length (delays ?tr) = length (delays tr) + 1"
    using le(2) by (simp_all add: maybeRetry_def Let_def)
  have "n = k - Suc a" using Suc.hyps(2) by simp
  moreover have "\<forall>j. Suc a \<le> j \<and> j < k \<longrightarrow> transient_failure (g j)"
    using Suc.prems(1) by simp
  moreover have "Suc a \<le> k" using lt by simp
  ultimately obtain tr' where run:
    "retry_loop isBot parse g r (Suc a) ?tr = ([], tr')"
    "attempts tr' + Suc a = attempts ?tr + k + 1"
    "length (delays tr') + Suc a = length (delays ?tr) + k"
    using Suc.hyps(1) [of "Suc a" ?tr] by blast
  have "attempts tr' + a = attempts tr + k + 1" using run(2) tr1(1) by simp
  moreover have "length (delays tr') + a = length (delays tr) + k" using run(3) tr1(2) by simp
  ultimately show ?case using step run(1) by simp
qed

lemma challenge_ends_loop:
  assumes "1 \<le> k \<and> k \<le> 3 \<and> challenge_page isBot (g k)
           \<and> (\<forall>j. 1 \<le> j \<and> j < k \<longrightarrow> transient_failure (g j))"
  shows "case retry_loop isBot parse g r 1 no_trace of
           (products, tr) \<Rightarrow>
             products = [] \<and> attempts tr = k \<and> length (delays tr) = k - 1"
proof -
  from assms have "k \<le> maxRetries" "challenge_page isBot (g k)"
    "\<forall>j. 1 \<le> j \<and> j < k \<longrightarrow> transient_failure (g j)" "1 \<le> k"
    by (simp_all add: maxRetries_def)
  from challenge_run [OF this, of parse r no_trace]
  obtain tr' where "retry_loop isBot parse g r 1 no_trace = ([], tr')"
    "attempts tr' + 1 = attempts no_trace + k + 1"
    "length (delays tr') + 1 = length (delays no_trace) + k" by blast
  then show ?thesis by (simp add: no_trace_def)
qed

lemma challenge_first_attempt:
  assumes "challenge_page isBot (g 1)"
  shows "retry_loop isBot parse g r 1 no_trace = ([], \<lparr>attempts = 1, delays = []\<rparr>)"
  using retry_loop_challenge [of 1 isBot g parse r no_trace] assms
  by (simp add: maxRetries_def no_trace_def)

text \<open>
  C5. For each of the three adapters: when an attempt succeeds with a body that is not
  blank and matches the adapter's bot markers (amazon: "robot check", "captcha";
  aliexpress: "captcha", "robot", "verification"; shopify: "captcha", "verification",
  "enable javascript"; all in any letter case), \<open>search()\<close> returns the empty sequence
  there: no attempt and no delay follows. If it is the first attempt, the run has 1
  attempt and no delay; if it is attempt \<open>k\<close> after \<open>k - 1\<close> transient failures, the run
  has \<open>k\<close> attempts and the \<open>k - 1\<close> delays that went before.
\<close>

theorem challenge_page_ends_search:
  "(challenge_page amazon_isBotPage (http_get (amazon_getSearchUrl q) 1) \<longrightarrow>
      amazon_search rt q m http_get math_random = ([], \<lparr>attempts = 1, delays = []\<rparr>))
   \<and> (challenge_page aliexpress_isBotPage (http_get (aliexpress_getSearchUrl q) 1) \<longrightarrow>
      aliexpress_search rt q m http_get math_random = ([], \<lparr>attempts = 1, delays = []\<rparr>))
   \<and> (challenge_page shopify_isBotPage (http_get (shopify_getSearchUrl q) 1) \<longrightarrow>
      shopify_search rt q m http_get math_random = ([], \<lparr>attempts = 1, delays = []\<rparr>))
   \<and> (1 \<le> k \<and> k \<le> 3 \<and> challenge_page amazon_isBotPage (http_get (amazon_getSearchUrl q) k)
        \<and> (\<forall>j. 1 \<le> j \<and> j < k \<longrightarrow> transient_failure (http_get (amazon_getSearchUrl q) j)) \<longrightarrow>
      (case amazon_search rt q m http_get math_random of
         (products, tr) \<Rightarrow> products = [] \<and> attempts tr = k \<and> length (delays tr) = k - 1))
   \<and> (1 \<le> k \<and> k \<le> 3
        \<and> challenge_page aliexpress_isBotPage (http_get (aliexpress_getSearchUrl q) k)
        \<and> (\<forall>j. 1 \<le> j \<and> j < k \<longrightarrow> transient_failure (http_get (aliexpress_getSearchUrl q) j)) \<longrightarrow>
      (case aliexpress_search rt q m http_get math_random of
         (products, tr) \<Rightarrow> products = [] \<and> attempts tr = k \<and> length (delays tr) = k - 1))
   \<and> (1 \<le> k \<and> k \<le> 3 \<and> challenge_page shopify_isBotPage (http_get (shopify_getSearchUrl q) k)
        \<and> (\<forall>j. 1 \<le> j \<and> j < k \<longrightarrow> transient_failure (http_get (shopify_getSearchUrl q) j)) \<longrightarrow>
      (case shopify_search rt q m http_get math_random of
         (products, tr) \<Rightarrow> products = [] \<and> attempts tr = k \<and> length (delays tr) = k - 1))"
  unfolding amazon_search_loop aliexpress_search_loop shopify_search_loop
  by (intro conjI impI; (rule challenge_first_attempt | rule challenge_ends_loop); assumption)

lemma sample_challenge_amazon: "challenge_page amazon_isBotPage (always_challenge searchUrl n)"
proof -
  have "trim sample_challenge_page \<noteq> [] \<and> amazon_isBotPage sample_challenge_page"
    by code_simp
  then show ?thesis by (simp add: challenge_page_def always_challenge_def)
qed

lemma sample_challenge_aliexpress:
  "challenge_page aliexpress_isBotPage (always_challenge searchUrl n)"
proof -
  have "trim sample_challenge_page \<noteq> [] \<and> aliexpress_isBotPage sample_challenge_page"
    by code_simp
  then show ?thesis by (simp add: challenge_page_def always_challenge_def)
qed

lemma sample_challenge_shopify: "challenge_page shopify_isBotPage (always_challenge searchUrl n)"
proof -
  have "trim sample_challenge_page \<noteq> [] \<and> shopify_isBotPage sample_challenge_page"
    by code_simp
  then show ?thesis by (simp add: challenge_page_def always_challenge_def)
qed

theorem challenge_page_ends_search_witness:
  "challenge_page amazon_isBotPage (always_challenge (amazon_getSearchUrl ''wireless mouse'') 1)
   \<and> amazon_search sample_runtime ''wireless mouse'' 10 always_challenge sample_random
       = ([], \<lparr>attempts = 1, delays = []\<rparr>)
   \<and> challenge_page aliexpress_isBotPage
       (always_challenge (aliexpress_getSearchUrl ''wireless mouse'') 1)
   \<and> aliexpress_search sample_runtime ''wireless mouse'' 10 always_challenge sample_random
       = ([], \<lparr>attempts = 1, delays = []\<rparr>)
   \<and> challenge_page shopify_isBotPage (always_challenge (shopify_getSearchUrl ''wireless mouse'') 1)
   \<and> shopify_search sample_runtime ''wireless mouse'' 10 always_challenge sample_random
       = ([], \<lparr>attempts = 1, delays = []\<rparr>)"
  using challenge_page_ends_search
    [of always_challenge "''wireless mouse''" sample_runtime 10 sample_random 1]
  by (simp add: sample_challenge_amazon sample_challenge_aliexpress sample_challenge_shopify)

section \<open>The loop over the containers\<close>

lemma each_container_full:
  "of_nat (length acc) \<ge> m \<Longrightarrow> each_container m item cs acc = acc"
  by (cases cs) simp_all

text \<open>One more listing still fits under a whole cap that is not reached yet.\<close>

lemma below_whole_cap:
  fixes m :: rat
  assumes "m \<in> \<int>" "\<not> of_nat n \<ge> m"
  shows "of_nat (Suc n) \<le> m"
proof -
  from assms(1) obtain k :: int where k: "m = of_int k" by (rule Ints_cases)
  from assms(2) have "(of_int (int n) :: rat) < of_int k" by (simp add: k)
  then have "int n < k" by (simp only: of_int_less_iff)
  then have "int (Suc n) \<le> k" by simp
  then have "(of_int (int (Suc n)) :: rat) \<le> of_int k" by (simp only: of_int_le_iff)
  then show ?thesis by (simp add: k)
qed

lemma each_container_length:
  "m \<in> \<int> \<Longrightarrow> of_nat (length acc) \<le> m \<Longrightarrow> of_nat (length (each_container m item cs acc)) \<le> m"
proof (induction cs arbitrary: acc)
  case Nil
  then show ?case by simp
next
  case (Cons c cs)
  show ?case
  proof (cases "of_nat (length acc) \<ge> m")
    case True
    with Cons.prems show ?thesis by simp
  next
    case False
    have "of_nat (length (acc @ [x])) \<le> m" for x
      using below_whole_cap [OF Cons.prems(1) False] by simp
    with False Cons show ?thesis by (simp split: option.splits)
  qed
qed

text \<open>
  For a cap that is not whole the loop still ends, one listing later: the result is
  shorter than \<open>maxResults + 1\<close>.
\<close>

lemma each_container_length_any:
  "of_nat (length acc) < m + 1 \<Longrightarrow> of_nat (length (each_container m item cs acc)) < m + 1"
proof (induction cs arbitrary: acc)
  case Nil
  then show ?case by simp
next
  case (Cons c cs)
  show ?case
  proof (cases "of_nat (length acc) \<ge> m")
    case True
    with Cons.prems show ?thesis by simp
  next
    case False
    then have "of_nat (length (acc @ [x])) < m + 1" for x by simp
    with False Cons show ?thesis by (simp split: option.splits)
  qed
qed

lemma each_container_source:
  "p \<in> set (each_container m item cs acc) \<Longrightarrow>
     p \<in> set acc \<or> (\<exists>c \<in> set cs. item c = Some p)"
proof (induction cs arbitrary: acc)
  case Nil
  then show ?case by simp
next
  case (Cons c cs)
  show ?case
  proof (cases "of_nat (length acc) \<ge> m")
    case True
    with Cons.prems show ?thesis by simp
  next
    case False
    show ?thesis
    proof (cases "item c")
      case None
      with False Cons.prems have "p \<in> set (each_container m item cs acc)" by simp
      from Cons.IH [OF this] show ?thesis by auto
    next
      case (Some q)
      with False Cons.prems have "p \<in> set (each_container m item cs (acc @ [q]))" by simp
      from Cons.IH [OF this] Some show ?thesis by auto
    qed
  qed
qed

lemma each_container_filter:
  "(\<And>c. \<not> keep c \<Longrightarrow> item c = None) \<Longrightarrow>
     each_container m item (filter keep cs) acc = each_container m item cs acc"
  by (induction cs arbitrary: acc) (auto simp: each_container_full split: option.splits)

lemma each_container_append:
  "each_container m item (cs @ ds) acc = each_container m item ds (each_container m item cs acc)"
  by (induction cs arbitrary: acc) (auto simp: each_container_full split: option.splits)

lemma each_container_stops:
  "of_nat (length (each_container m item cs acc)) \<ge> m \<Longrightarrow>
     each_container m item (cs @ ds) acc = each_container m item cs acc"
  by (simp add: each_container_append each_container_full)

text \<open>A search returns the empty sequence or what its parser makes of some page.\<close>

lemma retry_loop_result:
  "fst (retry_loop isBot parse g r a tr) = []
   \<or> (\<exists>html. fst (retry_loop isBot parse g r a tr) = parse html)"
proof (induction isBot parse g r a tr rule: retry_loop.induct)
  case (1 isBot parse g r a tr)
  show ?case
    apply (subst (1 2) retry_loop.simps)
    using 1
    apply (auto simp: Let_def split: fetch_outcome.splits option.splits)
    done
qed

lemma retry_loop_length:
  fixes m :: rat
  assumes "\<And>html. of_nat (length (parse html)) \<le> m" and "0 \<le> m"
  shows "of_nat (length (fst (retry_loop isBot parse g r a tr))) \<le> m"
  using retry_loop_result [of isBot parse g r a tr] assms by auto

lemma amazon_parse_length:
  "m \<in> \<int> \<Longrightarrow> 0 \<le> m \<Longrightarrow> of_nat (length (amazon_parseProducts rt m html)) \<le> m"
  by (simp add: amazon_parseProducts_def each_container_length)

lemma aliexpress_parse_length:
  "m \<in> \<int> \<Longrightarrow> 0 \<le> m \<Longrightarrow> of_nat (length (aliexpress_parseProducts rt m html)) \<le> m"
  by (simp add: aliexpress_parseProducts_def each_container_length)

lemma shopify_parse_length:
  "m \<in> \<int> \<Longrightarrow> 0 \<le> m \<Longrightarrow> of_nat (length (shopify_parseProducts rt m html)) \<le> m"
  by (simp add: shopify_parseProducts_def each_container_length)

text \<open>
  For any cap the callback pushes while the number of listings is below the cap, so the
  loop ends with at most the cap rounded up to a whole number.
\<close>

lemma each_container_ceiling:
  fixes m :: rat
  shows "int (length acc) \<le> \<lceil>m\<rceil> \<Longrightarrow> int (length (each_container m item cs acc)) \<le> \<lceil>m\<rceil>"
proof (induction cs arbitrary: acc)
  case Nil
  then show ?case by simp
next
  case (Cons c cs)
  show ?case
  proof (cases "of_nat (length acc) \<ge> m")
    case True
    with Cons.prems show ?thesis by simp
  next
    case False
    then have "of_int (int (length acc)) < m" by simp
    then have "int (length acc) < \<lceil>m\<rceil>" by (simp only: less_ceiling_iff)
    then have "int (length (acc @ [x])) \<le> \<lceil>m\<rceil>" for x by simp
    with False Cons.IH show ?thesis by (simp split: option.splits)
  qed
qed

lemma retry_loop_ceiling:
  assumes "\<And>html. int (length (parse html)) \<le> k" and "0 \<le> k"
  shows "int (length (fst (retry_loop isBot parse g r a tr))) \<le> k"
  using retry_loop_result [of isBot parse g r a tr] assms by auto

lemma amazon_parse_ceiling:
  "0 < m \<Longrightarrow> int (length (amazon_parseProducts rt m html)) \<le> \<lceil>m\<rceil>"
  by (simp add: amazon_parseProducts_def each_container_ceiling less_imp_le)

lemma aliexpress_parse_ceiling:
  "0 < m \<Longrightarrow> int (length (aliexpress_parseProducts rt m html)) \<le> \<lceil>m\<rceil>"
  by (simp add: aliexpress_parseProducts_def each_container_ceiling less_imp_le)

lemma shopify_parse_ceiling:
  "0 < m \<Longrightarrow> int (length (shopify_parseProducts rt m html)) \<le> \<lceil>m\<rceil>"
  by (simp add: shopify_parseProducts_def each_container_ceiling less_imp_le)

lemma ceiling_cap_nonneg:
  fixes m :: rat
  shows "0 < m \<Longrightarrow> 0 \<le> \<lceil>m\<rceil>"
  by (simp add: less_imp_le)

text \<open>
  C2 as stated fails for a cap that is not whole. With \<open>maxResults\<close> 3/2 and a page
  of two results the storefront-search adapter returns both: after the first listing
  the length 1 is still below 3/2.
\<close>

theorem cap_not_whole_counterexample:
  "(0::rat) < 3 / 2
   \<and> length (shopify_results sample_runtime sample_shopify_page) = 2
   \<and> length (shopify_parseProducts sample_runtime (3 / 2) sample_shopify_page) = 2
   \<and> \<not> of_nat (length (shopify_parseProducts sample_runtime (3 / 2) sample_shopify_page))
          \<le> (3 / 2 :: rat)
   \<and> \<not> of_nat (length (fst (shopify_search sample_runtime ''mug'' (3 / 2)
            (always_page sample_shopify_page) sample_random))) \<le> (3 / 2 :: rat)"
  by code_simp

text \<open>
  C2, amended. For each of the three adapters, every page and every positive
  \<open>maxResults\<close>: \<open>parseProducts\<close> and \<open>search()\<close> return at most \<open>maxResults\<close> rounded
  up to a whole number of listings, however many containers the page holds, which is
  at most \<open>maxResults\<close> when \<open>maxResults\<close> is whole; and once the loop over the
  containers has \<open>maxResults\<close> listings or more, further containers add nothing.
\<close>

theorem results_capped:
  assumes "0 < maxResults"
  shows
    "int (length (amazon_parseProducts rt maxResults html)) \<le> \<lceil>maxResults\<rceil>
     \<and> int (length (aliexpress_parseProducts rt maxResults html)) \<le> \<lceil>maxResults\<rceil>
     \<and> int (length (shopify_parseProducts rt maxResults html)) \<le> \<lceil>maxResults\<rceil>
     \<and> int (length (fst (amazon_search rt q maxResults http_get math_random))) \<le> \<lceil>maxResults\<rceil>
     \<and> int (length (fst (aliexpress_search rt q maxResults http_get math_random)))
          \<le> \<lceil>maxResults\<rceil>
     \<and> int (length (fst (shopify_search rt q maxResults http_get math_random))) \<le> \<lceil>maxResults\<rceil>
     \<and> (maxResults \<in> \<int> \<longrightarrow>
          of_nat (length (amazon_parseProducts rt maxResults html)) \<le> maxResults
          \<and> of_nat (length (aliexpress_parseProducts rt maxResults html)) \<le> maxResults
          \<and> of_nat (length (shopify_parseProducts rt maxResults html)) \<le> maxResults
          \<and> of_nat (length (fst (amazon_search rt q maxResults http_get math_random)))
               \<le> maxResults
          \<and> of_nat (length (fst (aliexpress_search rt q maxResults http_get math_random)))
               \<le> maxResults
          \<and> of_nat (length (fst (shopify_search rt q maxResults http_get math_random)))
               \<le> maxResults)
     \<and> (of_nat (length (each_container maxResults item containers [])) \<ge> maxResults \<longrightarrow>
          each_container maxResults item (containers @ further) []
            = each_container maxResults item containers [])"
proof -
  from assms have m: "0 \<le> maxResults" by simp
  note k = ceiling_cap_nonneg [OF assms]
  note positive = assms
  show ?thesis
    unfolding amazon_search_loop aliexpress_search_loop shopify_search_loop
    by (intro conjI impI retry_loop_ceiling amazon_parse_ceiling aliexpress_parse_ceiling
          shopify_parse_ceiling retry_loop_length amazon_parse_length aliexpress_parse_length
          shopify_parse_length each_container_stops k m positive)
qed

lemma shopify_sample_parse_1:
  "map title (shopify_parseProducts sample_runtime 1 sample_shopify_page) = [units ''Mug'']"
  by code_simp

lemma shopify_sample_parse_10:
  "map title (shopify_parseProducts sample_runtime 10 sample_shopify_page)
     = [units ''Mug'', units ''Red Mug'']"
  by code_simp

lemma shopify_sample_parse_between:
  "map title (shopify_parseProducts sample_runtime (3 / 2) sample_shopify_page)
     = [units ''Mug'', units ''Red Mug'']"
  by code_simp

lemma shopify_sample_loop_full:
  "of_nat (length (each_container 1 (shopify_item sample_runtime) (take 1 sample_shopify_containers)
      [])) \<ge> (1::rat)"
  by code_simp

lemma ceiling_three_halves: "\<lceil>3 / 2 :: rat\<rceil> = 2"
  by (simp add: ceiling_eq_iff)

text \<open>
  The theorem at the whole cap 1 and at the cap 3/2, on the page of two results: one
  listing under the cap 1, where the second container adds nothing to the first, and
  two listings under the cap 3/2.
\<close>

theorem results_capped_witness:
  "(0::rat) < 1 \<and> (1::rat) \<in> \<int>
   \<and> of_nat (length (shopify_parseProducts sample_runtime 1 sample_shopify_page)) \<le> (1::rat)
   \<and> of_nat (length (fst (shopify_search sample_runtime ''mug'' 1 (always_page sample_shopify_page)
         sample_random))) \<le> (1::rat)
   \<and> map title (shopify_parseProducts sample_runtime 1 sample_shopify_page) = [units ''Mug'']
   \<and> map title (shopify_parseProducts sample_runtime 10 sample_shopify_page)
        = [units ''Mug'', units ''Red Mug'']
   \<and> of_nat (length (each_container 1 (shopify_item sample_runtime)
          (take 1 sample_shopify_containers) [])) \<ge> (1::rat)
   \<and> each_container 1 (shopify_item sample_runtime)
        (take 1 sample_shopify_containers @ drop 1 sample_shopify_containers) []
      = each_container 1 (shopify_item sample_runtime) (take 1 sample_shopify_containers) []
   \<and> (0::rat) < 3 / 2
   \<and> int (length (shopify_parseProducts sample_runtime (3 / 2) sample_shopify_page)) \<le> 2
   \<and> map title (shopify_parseProducts sample_runtime (3 / 2) sample_shopify_page)
        = [units ''Mug'', units ''Red Mug'']"
proof -
  have positive: "(0::rat) < 1" by simp
  have whole: "(1::rat) \<in> \<int>" by simp
  have between: "(0::rat) < 3 / 2" by simp
  note capped = results_capped [OF positive, of sample_runtime sample_shopify_page "''mug''"
      "always_page sample_shopify_page" sample_random "shopify_item sample_runtime"
      "take 1 sample_shopify_containers" "drop 1 sample_shopify_containers"]
  note capped_between = results_capped [OF between, of sample_runtime sample_shopify_page "''mug''"
      "always_page sample_shopify_page" sample_random "shopify_item sample_runtime"
      "take 1 sample_shopify_containers" "drop 1 sample_shopify_containers"]
  from capped_between
  have two: "int (length (shopify_parseProducts sample_runtime (3 / 2) sample_shopify_page)) \<le> 2"
    by (simp only: ceiling_three_halves)
  from capped whole shopify_sample_loop_full
  have stops: "each_container 1 (shopify_item sample_runtime)
        (take 1 sample_shopify_containers @ drop 1 sample_shopify_containers) []
      = each_container 1 (shopify_item sample_runtime) (take 1 sample_shopify_containers) []"
    by blast
  from capped whole
  have one: "of_nat (length (shopify_parseProducts sample_runtime 1 sample_shopify_page)) \<le> (1::rat)"
      "of_nat (length (fst (shopify_search sample_runtime ''mug'' 1 (always_page sample_shopify_page)
         sample_random))) \<le> (1::rat)"
    by blast+
  show ?thesis
    by (intro conjI positive whole one shopify_sample_parse_1 shopify_sample_parse_10
          shopify_sample_loop_full stops between two shopify_sample_parse_between)
qed

section \<open>Sponsored results\<close>

lemma amazon_item_sponsored: "amazon_sponsored c \<Longrightarrow> amazon_item rt c = None"
  by (simp add: amazon_item_def)

lemma amazon_item_not_sponsored: "amazon_item rt c = Some p \<Longrightarrow> \<not> amazon_sponsored c"
  by (auto simp: amazon_item_def split: if_splits)

text \<open>
  C6. For every page, the marketplace adapter emits no listing built from a container
  flagged as sponsored, by the attribute marker or by a sponsored-label element: every
  listing of the output is built from a container that is not flagged, and the output
  is what parsing gives once the flagged containers are removed from the page.
\<close>

theorem sponsored_never_emitted:
  "(\<forall>p \<in> set (amazon_parseProducts rt maxResults html).
      \<exists>c \<in> set (amazon_results rt html). \<not> amazon_sponsored c \<and> amazon_item rt c = Some p)
   \<and> amazon_parseProducts rt maxResults html
       = each_container maxResults (amazon_item rt)
           (filter (\<lambda>c. \<not> amazon_sponsored c) (amazon_results rt html)) []
   \<and> (\<forall>c. amazon_sponsored c \<longrightarrow> amazon_item rt c = None)"
proof (intro conjI ballI allI impI)
  fix p assume "p \<in> set (amazon_parseProducts rt maxResults html)"
  then have "\<exists>c \<in> set (amazon_results rt html). amazon_item rt c = Some p"
    using each_container_source [of p maxResults "amazon_item rt" "amazon_results rt html" "[]"]
    by (simp add: amazon_parseProducts_def)
  then show "\<exists>c \<in> set (amazon_results rt html). \<not> amazon_sponsored c \<and> amazon_item rt c = Some p"
    using amazon_item_not_sponsored by blast
next
  show "amazon_parseProducts rt maxResults html
       = each_container maxResults (amazon_item rt)
           (filter (\<lambda>c. \<not> amazon_sponsored c) (amazon_results rt html)) []"
    unfolding amazon_parseProducts_def
    by (rule each_container_filter [symmetric]) (simp add: amazon_item_sponsored)
next
  fix c assume "amazon_sponsored c"
  then show "amazon_item rt c = None" by (rule amazon_item_sponsored)
qed

lemma amazon_sample_parse:
  "amazon_parseProducts sample_runtime 10 sample_amazon_page =
     [\<lparr>platform = amazon, title = units ''Wireless Mouse 2.4G'',
       url = ''https://www.amazon.com/dp/B07XYZ1234'',
       price = Some (Num (1299 / 100)), currency = Some ''USD'',
       image_src = None, imageUrl = None, sourcePlatform = amazon\<rparr>]"
  by code_simp

lemma amazon_sample_flags: "map amazon_sponsored sample_amazon_containers = [True, False]"
  by code_simp

lemma amazon_sample_results: "amazon_results sample_runtime sample_amazon_page = sample_amazon_containers"
  by (simp add: sample_runtime_def sample_amazon_results_def)

theorem sponsored_never_emitted_witness:
  "map amazon_sponsored (amazon_results sample_runtime sample_amazon_page) = [True, False]
   \<and> map title (amazon_parseProducts sample_runtime 10 sample_amazon_page) = [units ''Wireless Mouse 2.4G'']
   \<and> amazon_parseProducts sample_runtime 10 sample_amazon_page
       = each_container 10 (amazon_item sample_runtime)
           (filter (\<lambda>c. \<not> amazon_sponsored c) (amazon_results sample_runtime sample_amazon_page)) []"
proof -
  note emitted = sponsored_never_emitted [of sample_runtime 10 sample_amazon_page]
  have flags: "map amazon_sponsored (amazon_results sample_runtime sample_amazon_page) = [True, False]"
    by (simp only: amazon_sample_results amazon_sample_flags)
  have titles: "map title (amazon_parseProducts sample_runtime 10 sample_amazon_page)
                  = [units ''Wireless Mouse 2.4G'']"
    by (simp add: amazon_sample_parse)
  show ?thesis
    by (intro conjI flags titles emitted [THEN conjunct2, THEN conjunct1])
qed

section \<open>Prices of the wholesale adapter\<close>

lemma to_double_not_NaN: "to_double r \<noteq> NaN"
  by (simp add: to_double_def)

lemma code_unit_dollar: "code_unit (CHR ''$'') = 36"
  by (simp add: code_unit_def)

lemma code_unit_pound: "code_unit (CHR 0xA3) = 163"
  by (simp add: code_unit_def)

lemma trim_unchanged:
  assumes "s \<noteq> []" "\<not> js_whitespace (hd s)" "\<not> js_whitespace (last s)"
  shows "trim s = s"
proof -
  from assms have leading: "dropWhile js_whitespace s = s" by (cases s) simp_all
  from assms have "rev s \<noteq> []" "\<not> js_whitespace (hd (rev s))" by (simp_all add: hd_rev)
  then have trailing: "dropWhile js_whitespace (rev s) = rev s" by (cases "rev s") simp_all
  show ?thesis by (simp add: trim_def leading trailing)
qed

lemma upper_AZ_not_whitespace: "is_upper_AZ c \<Longrightarrow> \<not> js_whitespace c"
  by (auto simp: is_upper_AZ_def js_whitespace_def)

text \<open>The first capture never starts or ends with white space, so its \<open>trim()\<close> is itself.\<close>

lemma currency_group_trim:
  assumes "currency_group s = Some (symbol, rest)"
  shows "trim symbol = symbol"
proof -
  from assms obtain c cs where s: "s = c # cs" by (cases s) (simp_all add: currency_group_def)
  show ?thesis
  proof (cases "c = CHR ''$'' \<or> c = CHR 0xA3")
    case True
    with assms s have "symbol = [c]" by (auto simp: currency_group_def)
    with True show ?thesis
      by (auto simp: trim_def js_whitespace_def code_unit_dollar code_unit_pound)
  next
    case False
    with assms s have symbol: "symbol = take 3 s" and long: "length s \<ge> 3"
      and upper: "list_all is_upper_AZ (take 3 s)"
      by (auto simp: currency_group_def split: if_splits)
    from long symbol have nonempty: "symbol \<noteq> []" by auto
    from upper symbol have "\<forall>x \<in> set symbol. \<not> js_whitespace x"
      by (auto simp: list_all_iff upper_AZ_not_whitespace)
    with nonempty have "\<not> js_whitespace (hd symbol)" "\<not> js_whitespace (last symbol)" by simp_all
    with nonempty show ?thesis by (rule trim_unchanged)
  qed
qed

lemma price_match_at_trim:
  "price_match_at s = Some (Some symbol, amount) \<Longrightarrow> trim symbol = symbol"
  by (auto simp: price_match_at_def Let_def currency_group_trim split: option.splits)

lemma price_regex_match_trim:
  "price_regex_match s = Some (Some symbol, amount) \<Longrightarrow> trim symbol = symbol"
proof (induction s)
  case Nil
  then show ?case by (simp add: price_match_at_trim)
next
  case (Cons c cs)
  then show ?case by (auto simp: price_match_at_trim split: option.splits)
qed

lemma price_regex_match_currency:
  "price_regex_match s = Some (captured, amount) \<Longrightarrow> map_option trim captured = captured"
  by (cases captured) (simp_all add: price_regex_match_trim)

lemma price_regex_match_nonempty: "price_regex_match raw = Some m \<Longrightarrow> raw \<noteq> []"
  by (cases raw) (auto simp: price_match_at_def amount_after_def currency_group_def)

lemma numericPart_no_comma: "CHR '','' \<notin> set (numericPart_of amount)"
  by (simp add: numericPart_of_def)

lemma parsePrice_matched:
  assumes "price_regex_match raw = Some (captured, amount)"
  shows "snd (aliexpress_parsePrice raw) = captured"
    and "fst (aliexpress_parsePrice raw) = None \<longleftrightarrow>
           numericPart_of amount = [] \<or> parseFloat (numericPart_of amount) = NaN"
    and "fst (aliexpress_parsePrice raw) \<noteq> None \<longrightarrow>
           fst (aliexpress_parsePrice raw) = Some (parseFloat (numericPart_of amount))"
proof -
  from assms have nonempty: "raw \<noteq> []" by (rule price_regex_match_nonempty)
  show "snd (aliexpress_parsePrice raw) = captured"
    using assms nonempty by (simp add: aliexpress_parsePrice_def Let_def price_regex_match_currency)
  show "fst (aliexpress_parsePrice raw) = None \<longleftrightarrow>
           numericPart_of amount = [] \<or> parseFloat (numericPart_of amount) = NaN"
    using assms nonempty by (simp add: aliexpress_parsePrice_def Let_def)
  show "fst (aliexpress_parsePrice raw) \<noteq> None \<longrightarrow>
           fst (aliexpress_parsePrice raw) = Some (parseFloat (numericPart_of amount))"
    using assms nonempty by (simp add: aliexpress_parsePrice_def Let_def split: if_splits)
qed

text \<open>
  C9, as the code has it. When the pattern does not match, price and currency are both
  null. When it matches: the currency is the first capture, whatever becomes of the
  price; the numeric part holds no comma; the price is null exactly when the numeric
  part is empty or \<open>parseFloat\<close> gives \<open>NaN\<close> for it; otherwise the price is what
  \<open>parseFloat\<close> gives, which is \<open>Infinity\<close> for a numeric part too large for a double.
\<close>

theorem parsePrice_null_price_keeps_currency:
  "(price_regex_match raw = None \<longrightarrow> aliexpress_parsePrice raw = (None, None))
   \<and> (price_regex_match raw = Some (captured, amount) \<longrightarrow>
        snd (aliexpress_parsePrice raw) = captured
        \<and> CHR '','' \<notin> set (numericPart_of amount)
        \<and> (fst (aliexpress_parsePrice raw) = None \<longleftrightarrow>
             numericPart_of amount = [] \<or> parseFloat (numericPart_of amount) = NaN)
        \<and> (fst (aliexpress_parsePrice raw) \<noteq> None \<longrightarrow>
             fst (aliexpress_parsePrice raw) = Some (parseFloat (numericPart_of amount))))"
proof (intro conjI impI)
  assume "price_regex_match raw = None"
  then show "aliexpress_parsePrice raw = (None, None)"
    by (simp add: aliexpress_parsePrice_def)
next
  assume m: "price_regex_match raw = Some (captured, amount)"
  show "snd (aliexpress_parsePrice raw) = captured" by (rule parsePrice_matched(1) [OF m])
  show "CHR '','' \<notin> set (numericPart_of amount)" by (rule numericPart_no_comma)
  show "fst (aliexpress_parsePrice raw) = None \<longleftrightarrow>
          numericPart_of amount = [] \<or> parseFloat (numericPart_of amount) = NaN"
    by (rule parsePrice_matched(2) [OF m])
  assume "fst (aliexpress_parsePrice raw) \<noteq> None"
  with parsePrice_matched(3) [OF m]
  show "fst (aliexpress_parsePrice raw) = Some (parseFloat (numericPart_of amount))" by simp
qed

lemma sample_price_match_dot: "price_regex_match ''$.'' = Some (Some ''$'', ''.'')"
  by code_simp

lemma sample_price_dot: "aliexpress_parsePrice ''$.'' = (None, Some ''$'')"
  by code_simp

lemma sample_price_match_comma: "price_regex_match ''EUR ,'' = Some (Some ''EUR'', '','')"
  by code_simp

lemma sample_price_comma: "aliexpress_parsePrice ''EUR ,'' = (None, Some ''EUR'')"
  by code_simp

lemma sample_price_match_thousands:
  "price_regex_match ''US $1,234.50'' = Some (Some ''$'', ''1,234.50'')"
  by code_simp

lemma sample_price_thousands:
  "aliexpress_parsePrice ''US $1,234.50'' = (Some (Num (2469 / 2)), Some ''$'')"
  by code_simp

theorem parsePrice_null_price_keeps_currency_witness:
  "price_regex_match ''$.'' = Some (Some ''$'', ''.'')
   \<and> aliexpress_parsePrice ''$.'' = (None, Some ''$'')
   \<and> snd (aliexpress_parsePrice ''$.'') = Some ''$''
   \<and> price_regex_match ''EUR ,'' = Some (Some ''EUR'', '','')
   \<and> aliexpress_parsePrice ''EUR ,'' = (None, Some ''EUR'')
   \<and> price_regex_match ''US $1,234.50'' = Some (Some ''$'', ''1,234.50'')
   \<and> aliexpress_parsePrice ''US $1,234.50'' = (Some (Num (2469 / 2)), Some ''$'')"
proof -
  note keeps = parsePrice_null_price_keeps_currency [of "''$.''" "Some ''$''" "''.''"]
  have currency: "snd (aliexpress_parsePrice ''$.'') = Some ''$''"
    using keeps sample_price_match_dot by blast
  show ?thesis
    by (intro conjI sample_price_match_dot sample_price_dot currency sample_price_match_comma
          sample_price_comma sample_price_match_thousands sample_price_thousands)
qed

text \<open>A numeric part of 310 nines: beyond every double, so \<open>parseFloat\<close> gives \<open>Infinity\<close>.\<close>

lemma nine_is_digit: "is_digit (CHR ''9'')"
  by (simp add: is_digit_def code_unit_def)

lemma nine_value: "code_unit (CHR ''9'') = 57"
  by (simp add: code_unit_def)

lemma nine_not_whitespace: "\<not> js_whitespace (CHR ''9'')"
  by (simp add: js_whitespace_def code_unit_def)

lemma decimal_value_nines_step:
  "foldl (\<lambda>acc c. 10 * acc + (code_unit c - 48)) a (replicate n (CHR ''9'')) + 1
     = (a + 1) * 10 ^ n"
  by (induction n arbitrary: a) (simp_all add: nine_value algebra_simps)

lemma decimal_value_nines: "decimal_value (replicate n (CHR ''9'')) + 1 = 10 ^ n"
  using decimal_value_nines_step [of 0 n] by (simp add: decimal_value_def)

lemma decimal_value_Nil: "decimal_value [] = 0"
  by (simp add: decimal_value_def)

lemma parseFloat_nines:
  "0 < n \<Longrightarrow>
     parseFloat (replicate n (CHR ''9'')) = to_double (of_int (decimal_value (replicate n (CHR ''9''))))"
  by (simp add: parseFloat_def Let_def nine_is_digit decimal_value_Nil)

lemma numericPart_nines: "numericPart_of (replicate n (CHR ''9'')) = replicate n (CHR ''9'')"
  by (simp add: numericPart_of_def nine_is_digit)

lemma amount_after_nines:
  "0 < n \<Longrightarrow> amount_after (replicate n (CHR ''9'')) = Some (replicate n (CHR ''9''))"
  by (simp add: amount_after_def Let_def nine_not_whitespace is_amount_char_def nine_is_digit)

lemma price_regex_match_nines:
  "0 < n \<Longrightarrow>
     price_regex_match (CHR ''$'' # replicate n (CHR ''9''))
       = Some (Some ''$'', replicate n (CHR ''9''))"
  by (simp add: price_match_at_def currency_group_def amount_after_nines)

lemma to_double_overflow:
  "to_double (of_int (decimal_value (replicate 310 (CHR ''9'')))) = PosInfinity"
proof -
  have "(2::int) ^ 1024 \<le> 10 ^ 310" by simp
  also have "\<dots> = decimal_value (replicate 310 (CHR ''9'')) + 1"
    by (simp only: decimal_value_nines)
  finally have "(2::int) ^ 1024 - 2 ^ 970 \<le> decimal_value (replicate 310 (CHR ''9''))"
    by (simp del: replicate.simps)
  then have "(of_int ((2::int) ^ 1024 - 2 ^ 970) :: rat)
               \<le> of_int (decimal_value (replicate 310 (CHR ''9'')))"
    by (simp only: of_int_le_iff)
  then show ?thesis by (simp only: to_double_def if_True)
qed

text \<open>
  C9 as stated fails: the numeric part of this price text does not parse as a finite
  number, and the price is \<open>Infinity\<close>, not null.
\<close>

theorem parsePrice_infinite_price_counterexample:
  "price_regex_match (CHR ''$'' # replicate 310 (CHR ''9''))
     = Some (Some ''$'', replicate 310 (CHR ''9''))
   \<and> parseFloat (numericPart_of (replicate 310 (CHR ''9''))) = PosInfinity
   \<and> aliexpress_parsePrice (CHR ''$'' # replicate 310 (CHR ''9''))
       = (Some PosInfinity, Some ''$'')"
proof -
  have positive: "(0::nat) < 310" by simp
  have matched: "price_regex_match (CHR ''$'' # replicate 310 (CHR ''9''))
     = Some (Some ''$'', replicate 310 (CHR ''9''))"
    by (rule price_regex_match_nines [OF positive])
  have parsed: "parseFloat (numericPart_of (replicate 310 (CHR ''9''))) = PosInfinity"
    by (simp only: numericPart_nines parseFloat_nines [OF positive] to_double_overflow)
  have dollar: "trim ''$'' = ''$''" by code_simp
  have nonempty: "numericPart_of (replicate 310 (CHR ''9'')) \<noteq> []"
    by (simp only: numericPart_nines replicate_empty)
  have "aliexpress_parsePrice (CHR ''$'' # replicate 310 (CHR ''9''))
       = (Some PosInfinity, Some ''$'')"
    unfolding aliexpress_parsePrice_def matched Let_def
    by (simp add: parsed nonempty dollar)
  with matched parsed show ?thesis by (intro conjI)
qed

section \<open>Titles of the wholesale adapter\<close>

text \<open>
  Only the first two sources of the title chain can be taken: a \<open>text()\<close> is never
  \<open>undefined\<close>, so \<open>??\<close> never goes past the first one.
\<close>

lemma aliexpress_title_first_two:
  "aliexpress_title c =
     Some (case anchor_attr_title (aliexpress_anchor c) of
             Some t \<Rightarrow> t
           | None \<Rightarrow> multi_title_text c)"
  by (simp add: aliexpress_title_def nullish_def Let_def split: option.splits)

lemma aliexpress_item_needs_first_two:
  "anchor_attr_title (aliexpress_anchor c) = None \<Longrightarrow> trim (multi_title_text c) = [] \<Longrightarrow>
     aliexpress_item rt c = None"
  by (simp add: aliexpress_item_def aliexpress_title_first_two Let_def split: option.splits)

text \<open>
  C8 on the sample card, whose title stands in the second title class and in the
  anchor text only: the title the code computes is empty and the card is dropped.
\<close>

theorem fallback_title_card_dropped:
  "aliexpress_results sample_runtime sample_fallback_title_page = sample_fallback_title_containers
   \<and> map manhattan_title_text sample_fallback_title_containers = [''Red Mug'']
   \<and> map (\<lambda>c. anchor_text (aliexpress_anchor c)) sample_fallback_title_containers = [''Red Mug'']
   \<and> map aliexpress_title sample_fallback_title_containers = [Some []]
   \<and> aliexpress_parseProducts sample_runtime 10 sample_fallback_title_page = []"
  by code_simp

section \<open>Listing URLs\<close>































text \<open>
  Not part of the property below: a link that starts with a slash. It loses the slash
  when it is made absolute, so the host of the candidate runs into the first segment of
  the path, and the product code of \<open>/dp/B07XYZ1234\<close> is not found.
\<close>

lemma amazon_relative_link_candidate:
  "amazon_absolute_candidate ''/dp/B07XYZ1234'' = ''https://www.amazon.comdp/B07XYZ1234''"
  by code_simp

lemma amazon_relative_link_result:
  "amazon_normalizeProductLink sample_runtime ''/dp/B07XYZ1234''
     = Some ''https://www.amazon.comdp/B07XYZ1234''"
  by code_simp











end
